theory Spec2Isabelle
  imports Main "HOL-Library.AList"
begin

section \<open>Go values shared by the three servers\<close>

text \<open>
  Strings and byte slices are \<open>string\<close> (a list of bytes). Go's \<open>int\<close> and
  \<open>int64\<close> are \<open>int\<close>: no operation of the verified code can overflow them.
  A \<open>time.Time\<close> is the number of nanoseconds since Go's zero time
  (January 1, year 1, 00:00 UTC); a \<open>time.Duration\<close> is a number of nanoseconds.
\<close>

type_synonym time = int
type_synonym Duration = int

definition Second :: Duration where
  "Second = 1000000000"

definition Hour :: Duration where
  "Hour = 3600 * Second"

text \<open>\<open>Time.Unix\<close>: seconds since January 1, 1970 UTC.\<close>

definition Unix :: "time \<Rightarrow> int" where
  "Unix t = t div Second - 62135596800"


text \<open>
  \<open>Time.String\<close> prints a time in the layout
  \<open>2006-01-02 15:04:05.999999999 -0700 MST\<close> (a time that \<open>Round\<close> returned has
  no monotonic clock reading to print). Its bytes are digits, \<open>-\<close>, \<open>:\<close>,
  \<open>.\<close>, \<open>+\<close>, the space, and the letters of the zone abbreviation, which for an
  abbreviation without letters is a signed number. \<open>layout_char\<close> are these bytes;
  digits and letters are counted from \<open>0\<close>, \<open>A\<close> and \<open>a\<close>.
\<close>

datatype layout_char =
    LayoutDigit nat
  | LayoutUpper nat
  | LayoutLower nat
  | LayoutSpace
  | LayoutMinus
  | LayoutPlus
  | LayoutColon
  | LayoutDot


subsection \<open>Errors\<close>

text \<open>
  A Go \<open>error\<close> value, by dynamic type: \<open>errors.New\<close> (\<open>ErrorString\<close>), the
  repository's \<open>*statusError\<close> (its \<open>Err\<close> may be nil) and \<open>*HttpError\<close>,
  \<open>fmt.Errorf\<close> with a \<open>%w\<close> verb (\<open>WrapError\<close>: the text before the wrapped
  error, and the wrapped error), \<open>http.ErrNoCookie\<close>, and any other error a library
  returns (\<open>LibError\<close>, with its message).
\<close>

datatype go_error =
    ErrorString string
  | StatusError int "go_error option"
  | WrapError string go_error
  | HttpError int
  | ErrNoCookie
  | LibError string

text \<open>Decimal digits of a number, as \<open>%d\<close> and \<open>%v\<close> print an \<open>int\<close>.\<close>

function digits :: "int \<Rightarrow> string" where
  "digits n =
     (if n < 10 then [''0123456789'' ! nat n]
      else digits (n div 10) @ [''0123456789'' ! nat (n mod 10)])"
  by pat_completeness auto
termination
  by (relation "measure nat") auto

declare digits.simps [simp del]

definition fmt_d :: "int \<Rightarrow> string" where
  "fmt_d i = (if i < 0 then ''-'' @ digits (- i) else digits i)"

text \<open>
  The \<open>Error()\<close> method. \<open>statusError.Error\<close> is
  \<open>fmt.Sprintf("status %d: err %v", r.StatusCode, r.Err)\<close> and \<open>HttpError.Error\<close> is
  \<open>fmt.Sprintf("http error : %v", e.statusCode)\<close>.
\<close>

fun Error :: "go_error \<Rightarrow> string" where
  "Error (ErrorString s) = s"
| "Error (StatusError c e) =
     ''status '' @ fmt_d c @ '': err '' @
       (case e of None \<Rightarrow> ''<nil>'' | Some e' \<Rightarrow> Error e')"
| "Error (WrapError p e) = p @ Error e"
| "Error (HttpError c) = ''http error : '' @ fmt_d c"
| "Error ErrNoCookie = ''http: named cookie not present''"
| "Error (LibError s) = s"

definition NewStatusError :: "int \<Rightarrow> go_error option \<Rightarrow> go_error" where
  "NewStatusError statusCode err = StatusError statusCode err"

definition NewHttpError :: "int \<Rightarrow> go_error" where
  "NewHttpError statusCode = HttpError statusCode"

text \<open>
  \<open>errors.As(err, &httpError)\<close> for a target of type \<open>*HttpError\<close>: the first
  \<open>*HttpError\<close> on the chain of \<open>Unwrap\<close>. Only \<open>fmt.Errorf\<close>'s wrapper has
  an \<open>Unwrap\<close> method here (\<open>statusError\<close> declares none). The result is the
  \<open>Status()\<close> of the error found.
\<close>

fun As_HttpError :: "go_error \<Rightarrow> int option" where
  "As_HttpError (HttpError c) = Some c"
| "As_HttpError (WrapError p e) = As_HttpError e"
| "As_HttpError (ErrorString s) = None"
| "As_HttpError (StatusError c e) = None"
| "As_HttpError ErrNoCookie = None"
| "As_HttpError (LibError s) = None"

subsection \<open>The logger\<close>

text \<open>
  \<open>Logger\<close> is an interface field of every server. Its effect is the list of entries
  written so far, passed in and returned; an entry keeps the level and the text of its
  arguments (an error argument by its \<open>Error()\<close>).
\<close>

datatype log_entry = LogError string | LogInfo string | LogDebug string

type_synonym Logger = "log_entry list"

definition Logger_Error :: "Logger \<Rightarrow> go_error \<Rightarrow> Logger" where
  "Logger_Error lg err = lg @ [LogError (Error err)]"

definition Logger_Errorf :: "Logger \<Rightarrow> string \<Rightarrow> go_error \<Rightarrow> Logger" where
  "Logger_Errorf lg prefix err = lg @ [LogError (prefix @ Error err)]"

definition Logger_Info :: "Logger \<Rightarrow> string \<Rightarrow> Logger" where
  "Logger_Info lg msg = lg @ [LogInfo msg]"

definition Logger_Debug :: "Logger \<Rightarrow> string \<Rightarrow> Logger" where
  "Logger_Debug lg msg = lg @ [LogDebug msg]"

section \<open>net/http: headers, requests and the response writer\<close>

subsection \<open>Header\<close>

text \<open>
  \<open>http.Header\<close> is \<open>map[string][]string\<close>. It is an association list here: the
  order of the list is the order in which one \<open>range\<close> over the map visits the keys,
  which Go leaves unspecified; theorems about a \<open>range\<close> loop hold for every list.
  \<open>header_values h key\<close> is the map index \<open>h[key]\<close>, nil for an absent key.
\<close>

type_synonym Header = "(string \<times> string list) list"

definition header_values :: "Header \<Rightarrow> string \<Rightarrow> string list" where
  "header_values h key = (case map_of h key of None \<Rightarrow> [] | Some vs \<Rightarrow> vs)"

text \<open>
  \<open>textproto.CanonicalMIMEHeaderKey\<close>: a key with a byte that is not a token byte
  is returned unchanged; otherwise the first letter and every letter after a hyphen are
  upper case and the other letters lower case.
\<close>

definition validHeaderFieldByte :: "char \<Rightarrow> bool" where
  "validHeaderFieldByte c =
     (c \<in> set (''abcdefghijklmnopqrstuvwxyzABCDEFGHIJKLMNOPQRSTUVWXYZ0123456789''
               @ ''!#$%&*+-.^_|~'' @ [CHR 0x27, CHR 0x60]))"

definition toUpper :: "char \<Rightarrow> char" where
  "toUpper c =
     (case map_of (zip ''abcdefghijklmnopqrstuvwxyz'' ''ABCDEFGHIJKLMNOPQRSTUVWXYZ'') c of
        None \<Rightarrow> c | Some u \<Rightarrow> u)"

definition toLower :: "char \<Rightarrow> char" where
  "toLower c =
     (case map_of (zip ''ABCDEFGHIJKLMNOPQRSTUVWXYZ'' ''abcdefghijklmnopqrstuvwxyz'') c of
        None \<Rightarrow> c | Some l \<Rightarrow> l)"

fun canonicalBytes :: "bool \<Rightarrow> string \<Rightarrow> string" where
  "canonicalBytes upper [] = []"
| "canonicalBytes upper (c # cs) =
     (let c' = (if upper then toUpper c else toLower c)
      in c' # canonicalBytes (c' = CHR ''-'') cs)"

definition CanonicalMIMEHeaderKey :: "string \<Rightarrow> string" where
  "CanonicalMIMEHeaderKey s =
     (if list_all validHeaderFieldByte s then canonicalBytes True s else s)"

text \<open>\<open>Header.Add\<close>, \<open>Set\<close>, \<open>Del\<close> and \<open>Get\<close>, each on the canonical key.\<close>

definition Header_Add :: "Header \<Rightarrow> string \<Rightarrow> string \<Rightarrow> Header" where
  "Header_Add h key v =
     (let k = CanonicalMIMEHeaderKey key
      in AList.update k (header_values h k @ [v]) h)"

definition Header_Set :: "Header \<Rightarrow> string \<Rightarrow> string \<Rightarrow> Header" where
  "Header_Set h key v = AList.update (CanonicalMIMEHeaderKey key) [v] h"

definition Header_Del :: "Header \<Rightarrow> string \<Rightarrow> Header" where
  "Header_Del h key = AList.delete (CanonicalMIMEHeaderKey key) h"

definition Header_Get :: "Header \<Rightarrow> string \<Rightarrow> string" where
  "Header_Get h key =
     (case header_values h (CanonicalMIMEHeaderKey key) of [] \<Rightarrow> [] | v # _ \<Rightarrow> v)"

subsection \<open>URLs, requests, responses, cookies\<close>

text \<open>
  \<open>url.URL\<close>, in the order of its fields. \<open>ForceQuery\<close> is set for a URL that
  ends in a \<open>?\<close> with nothing after it.
\<close>

record URL =
  Scheme :: string
  Opaque :: string
  Host :: string
  Path :: string
  ForceQuery :: bool
  RawQuery :: string
  Fragment :: string

text \<open>
  The fields of \<open>http.Request\<close> the servers read. \<open>Form\<close> is the parsed form
  (\<open>url.Values\<close>: the query and the body parameters), as \<open>FormValue\<close> finds it.
\<close>

record Request =
  Method :: string
  URL :: URL
  Header :: Header
  Form :: "(string \<times> string list) list"
  Body :: string

text \<open>
  \<open>http.Response\<close>; its fields \<open>Header\<close> and \<open>Body\<close> are \<open>RespHeader\<close> and
  \<open>RespBody\<close> here, next to those of the request, and a cookie's \<open>Path\<close> is
  \<open>CookiePath\<close>, next to the URL's.
\<close>

record Response =
  StatusCode :: int
  RespHeader :: Header
  RespBody :: string

record Cookie =
  Name :: string
  Value :: string
  CookiePath :: string
  Expires :: time
  MaxAge :: int
  HttpOnly :: bool

text \<open>\<open>Request.FormValue\<close>: the first value of the key, or the empty string.\<close>

definition FormValue :: "Request \<Rightarrow> string \<Rightarrow> string" where
  "FormValue r key = (case map_of (Form r) key of Some (v # _) \<Rightarrow> v | _ \<Rightarrow> [])"

subsection \<open>ResponseWriter\<close>

text \<open>
  The server's \<open>http.ResponseWriter\<close>. \<open>w_header\<close> is the map \<open>w.Header()\<close>
  returns. The first \<open>WriteHeader\<close> with a final status code sends the code with the
  header map as it is at that moment (\<open>wrote\<close>); later calls and later changes of the
  map are not sent. A \<open>Write\<close> before any \<open>WriteHeader\<close> sends status 200 first.
  \<open>flusher\<close> says whether the writer implements \<open>http.Flusher\<close>.

  \<open>WriteHeader\<close> is \<open>(*response).WriteHeader\<close> of \<open>net/http\<close>, in its order:
  \<^item> a call after the header was written changes nothing (it logs
    ``superfluous response.WriteHeader call'');
  \<^item> \<open>checkWriteHeaderCode\<close> panics for a code below 100 or above 999. The panic
    ends the handler; the server recovers it and closes the connection, so the client
    gets no reply. \<open>panicked\<close> records it;
  \<^item> a code from 100 to 199 other than 101 is sent at once as an informational
    response (\<open>informational\<close>; Go 1.19 and later), and the header of the final
    response is still to be written;
  \<^item> any other code is the status of the response.
\<close>

record ResponseWriter =
  w_header :: Header
  wrote :: "(int \<times> Header) option"
  w_body :: string
  flusher :: bool
  informational :: "(int \<times> Header) list"
  panicked :: bool

definition NewResponseWriter :: ResponseWriter where
  "NewResponseWriter =
     \<lparr>w_header = [], wrote = None, w_body = [], flusher = True, informational = [],
      panicked = False\<rparr>"

definition checkWriteHeaderCode :: "int \<Rightarrow> bool" where
  "checkWriteHeaderCode code = (100 \<le> code \<and> code \<le> 999)"

definition WriteHeader :: "ResponseWriter \<Rightarrow> int \<Rightarrow> ResponseWriter" where
  "WriteHeader w code =
     (case wrote w of
        Some _ \<Rightarrow> w
      | None \<Rightarrow>
          if \<not> checkWriteHeaderCode code then w\<lparr>panicked := True\<rparr>
          else if code \<le> 199 \<and> code \<noteq> 101
          then w\<lparr>informational := informational w @ [(code, w_header w)]\<rparr>
          else w\<lparr>wrote := Some (code, w_header w)\<rparr>)"

definition Write :: "ResponseWriter \<Rightarrow> string \<Rightarrow> ResponseWriter" where
  "Write w b =
     (let w' = (case wrote w of None \<Rightarrow> WriteHeader w 200 | Some _ \<Rightarrow> w)
      in w'\<lparr>w_body := w_body w' @ b\<rparr>)"

text \<open>The status code and the headers the client receives.\<close>

definition status :: "ResponseWriter \<Rightarrow> int option" where
  "status w = map_option fst (wrote w)"

definition sent_header :: "ResponseWriter \<Rightarrow> Header" where
  "sent_header w = (case wrote w of None \<Rightarrow> [] | Some (_, h) \<Rightarrow> h)"

text \<open>
  \<open>http.Error\<close>: the plain-text content headers it sets, the status code, then the
  message and a newline as the body. When \<open>WriteHeader\<close> panics, the message is not
  written.
\<close>

definition http_Error :: "ResponseWriter \<Rightarrow> string \<Rightarrow> int \<Rightarrow> ResponseWriter" where
  "http_Error w msg code =
     (let h = Header_Del (w_header w) ''Content-Length'';
          h = Header_Set h ''Content-Type'' ''text/plain; charset=utf-8'';
          h = Header_Set h ''X-Content-Type-Options'' ''nosniff'';
          w = WriteHeader (w\<lparr>w_header := h\<rparr>) code
      in if panicked w then w else Write w (msg @ [CHR 0x0A]))"

text \<open>\<open>io.Copy(w, resp.Body)\<close>: the whole body is written to the client.\<close>

definition io_Copy :: "ResponseWriter \<Rightarrow> string \<Rightarrow> ResponseWriter" where
  "io_Copy w b = Write w b"

section \<open>The libraries the servers call\<close>

text \<open>
  The servers call Go's standard library and \<open>golang.org/x/oauth2\<close>. What these
  calls return is a parameter of the model: a record with one function for each call,
  typed as the call is. Every theorem below holds for every such record.
  \<^item> \<open>parseCookies lines name\<close>: the cookies named \<open>name\<close> that \<open>net/http\<close>
    reads from the lines of the \<open>Cookie\<close> header, in order;
  \<^item> \<open>Cookie_String\<close>: \<open>Cookie.String\<close>, the \<open>Set-Cookie\<close> line, empty for an
    invalid cookie name;
  \<^item> \<open>url_Parse\<close>, \<open>ResolveReference\<close>: package \<open>net/url\<close>;
  \<^item> \<open>URL_hierPart scheme opaque host path\<close>: what \<open>URL.String\<close> prints before
    the query, that is the scheme, then the opaque part or the authority and the
    escaped path;
  \<^item> \<open>EscapedFragment\<close>: \<open>URL.EscapedFragment\<close>, for a non-empty fragment;
  \<^item> \<open>json_Marshal\<close> and \<open>json_Unmarshal\<close>: \<open>encoding/json\<close> on a \<open>State\<close>,
    the second decoding into a zero \<open>State\<close>;
  \<^item> \<open>base64_EncodeToString\<close>, \<open>base64_DecodeString\<close>: \<open>base64.StdEncoding\<close>;
  \<^item> \<open>AuthCodeURL\<close> (with \<open>oauth2.AccessTypeOffline\<close>) and \<open>Exchange\<close>:
    methods of \<open>oauth2.Config\<close>;
  \<^item> \<open>redirectLocation r url\<close>: the \<open>Location\<close> header \<open>http.Redirect\<close>
    computes for the target \<open>url\<close> on request \<open>r\<close>;
  \<^item> \<open>http_NewRequest method url body\<close>: \<open>http.NewRequestWithContext\<close> and
    \<open>http.NewRequest\<close>;
  \<^item> \<open>Time_layout\<close>: the bytes \<open>Time.String\<close> prints for a time.
\<close>

record State =
  RedirectUri :: string
  Timestamp :: int

record Token =
  AccessToken :: string
  TokenType :: string
  RefreshToken :: string
  Expiry :: time

record Config =
  ClientID :: string
  ClientSecret :: string
  AuthURL :: string
  TokenURL :: string
  RedirectURL :: string
  Scopes :: "string list"

record golib =
  parseCookies :: "string list \<Rightarrow> string \<Rightarrow> Cookie list"
  Cookie_String :: "Cookie \<Rightarrow> string"
  url_Parse :: "string \<Rightarrow> go_error + URL"
  URL_hierPart :: "string \<Rightarrow> string \<Rightarrow> string \<Rightarrow> string \<Rightarrow> string"
  EscapedFragment :: "string \<Rightarrow> string"
  ResolveReference :: "URL \<Rightarrow> URL \<Rightarrow> URL"
  json_Marshal :: "State \<Rightarrow> go_error + string"
  json_Unmarshal :: "string \<Rightarrow> go_error + State"
  base64_EncodeToString :: "string \<Rightarrow> string"
  base64_DecodeString :: "string \<Rightarrow> go_error + string"
  AuthCodeURL :: "Config \<Rightarrow> string \<Rightarrow> string"
  Exchange :: "Config \<Rightarrow> string \<Rightarrow> go_error + Token"
  redirectLocation :: "Request \<Rightarrow> string \<Rightarrow> string"
  http_NewRequest :: "string \<Rightarrow> string \<Rightarrow> string \<Rightarrow> go_error + Request"
  Time_layout :: "time \<Rightarrow> layout_char list"

text \<open>
  \<open>URL.String\<close>: the part before the query; then \<open>?\<close> and the raw query, when
  \<open>ForceQuery\<close> is set or the query is not empty; then \<open>#\<close> and the escaped
  fragment, when the fragment is not empty.
\<close>

definition URL_String :: "golib \<Rightarrow> URL \<Rightarrow> string" where
  "URL_String lib u =
     URL_hierPart lib (Scheme u) (Opaque u) (Host u) (Path u)
     @ (if ForceQuery u \<or> RawQuery u \<noteq> [] then ''?'' @ RawQuery u else [])
     @ (if Fragment u \<noteq> [] then ''#'' @ EscapedFragment lib (Fragment u) else [])"


text \<open>
  \<open>Request.Cookie(name)\<close>: the first cookie of that name, or \<open>ErrNoCookie\<close>.
  \<open>net/http\<close> reads the cookies from \<open>r.Header["Cookie"]\<close> and finds none when
  that entry has no line.
\<close>

definition readCookies :: "golib \<Rightarrow> Header \<Rightarrow> string \<Rightarrow> Cookie list" where
  "readCookies lib h name =
     (case header_values h ''Cookie'' of
        [] \<Rightarrow> []
      | l # ls \<Rightarrow> parseCookies lib (l # ls) name)"

definition Request_Cookie :: "golib \<Rightarrow> Request \<Rightarrow> string \<Rightarrow> go_error + Cookie" where
  "Request_Cookie lib r name =
     (case readCookies lib (Header r) name of
        [] \<Rightarrow> Inl ErrNoCookie
      | c # _ \<Rightarrow> Inr c)"

text \<open>
  \<open>http.SetCookie\<close>: adds the cookie's \<open>Set-Cookie\<close> line to the writer's header,
  unless the line is empty.
\<close>

definition http_SetCookie :: "golib \<Rightarrow> ResponseWriter \<Rightarrow> Cookie \<Rightarrow> ResponseWriter" where
  "http_SetCookie lib w cookie =
     (let v = Cookie_String lib cookie
      in if v \<noteq> [] then w\<lparr>w_header := Header_Add (w_header w) ''Set-Cookie'' v\<rparr> else w)"

text \<open>
  \<open>http.Redirect\<close>: the \<open>Location\<close> header, then the status code. (The short
  HTML note it also writes for a GET request is left out: nothing below reads the body
  of a redirect.)
\<close>

definition http_Redirect ::
  "golib \<Rightarrow> ResponseWriter \<Rightarrow> Request \<Rightarrow> string \<Rightarrow> int \<Rightarrow> ResponseWriter" where
  "http_Redirect lib w r url code =
     WriteHeader (w\<lparr>w_header := Header_Set (w_header w) ''Location'' (redirectLocation lib r url)\<rparr>) code"

definition StatusBadRequest :: int where
  "StatusBadRequest = 400"

definition StatusTemporaryRedirect :: int where
  "StatusTemporaryRedirect = 307"

definition StatusInternalServerError :: int where
  "StatusInternalServerError = 500"


section \<open>The auth server (\<^verbatim>\<open>auth_server.go\<close>)\<close>

record authServer =
  Config :: Config
  authCookieName :: string
  stateCookieName :: string

text \<open>\<open>NewAuthServer\<close> without options: the default cookie names.\<close>

definition NewAuthServer :: "Config \<Rightarrow> authServer" where
  "NewAuthServer config =
     \<lparr>Config = config, authCookieName = ''auth'', stateCookieName = ''state''\<rparr>"

text \<open>\<open>authServer.encode\<close>, on a \<open>State\<close>: JSON, then standard base64.\<close>

definition encode :: "golib \<Rightarrow> State \<Rightarrow> go_error + string" where
  "encode lib v =
     (case json_Marshal lib v of
        Inl err \<Rightarrow> Inl err
      | Inr json \<Rightarrow> Inr (base64_EncodeToString lib json))"

text \<open>
  \<open>authServer.decode\<close>, into a \<open>State\<close>: the string is padded with \<open>=\<close> to a
  multiple of four bytes, decoded from base64, then from JSON.
\<close>

definition decode :: "golib \<Rightarrow> string \<Rightarrow> go_error + State" where
  "decode lib encoded =
     (let l = length encoded mod 4;
          encoded = (if l > 0 then encoded @ replicate (4 - l) CHR ''='' else encoded)
      in case base64_DecodeString lib encoded of
           Inl err \<Rightarrow> Inl err
         | Inr decoded \<Rightarrow> json_Unmarshal lib decoded)"

definition encodeState :: "golib \<Rightarrow> time \<Rightarrow> Request \<Rightarrow> go_error + string" where
  "encodeState lib now r =
     (let redirectUri = FormValue r ''redirect_uri'';
          redirectUri = (if redirectUri = [] then ''/'' else redirectUri)
      in encode lib \<lparr>RedirectUri = redirectUri, Timestamp = Unix now\<rparr>)"

text \<open>
  \<open>authServer.decodeState\<close>. The Go function returns a \<open>(State, error)\<close> pair and
  its caller reads the state only when the error is nil: the result is the error or
  the decoded state. (Its last statement is
  \<open>return state, self.decode(cookie.Value, &state)\<close>; the Go compiler reads
  \<open>state\<close> after the call has filled it.)
\<close>

definition decodeState :: "golib \<Rightarrow> authServer \<Rightarrow> Request \<Rightarrow> go_error + State" where
  "decodeState lib self r =
     (case Request_Cookie lib r (stateCookieName self) of
        Inl err \<Rightarrow> Inl err
      | Inr cookie \<Rightarrow>
          if Value cookie \<noteq> FormValue r ''state'' then Inl (ErrorString ''Invalid state'')
          else decode lib (Value cookie))"

definition checkError :: "Request \<Rightarrow> go_error option" where
  "checkError r =
     (let errType = FormValue r ''error'';
          errDesc = FormValue r ''error_description''
      in if errType \<noteq> [] then Some (ErrorString (errType @ '' : '' @ errDesc)) else None)"

text \<open>
  Every handler takes the response writer and the logger as they are and returns them
  as it leaves them. \<open>reject\<close> is the block every failing branch of the handlers
  repeats: \<open>w.WriteHeader(http.StatusBadRequest); self.Logger.Error(err); return\<close>.
\<close>

definition reject :: "ResponseWriter \<Rightarrow> Logger \<Rightarrow> go_error \<Rightarrow> ResponseWriter \<times> Logger" where
  "reject w lg err = (WriteHeader w StatusBadRequest, Logger_Error lg err)"

text \<open>
  \<open>authServer.Login\<close>. \<open>time.Now()\<close> is read twice: \<open>now\<close> for the state's
  timestamp and \<open>now'\<close> for the cookie's expiry.
\<close>

definition Login ::
  "golib \<Rightarrow> authServer \<Rightarrow> time \<Rightarrow> time \<Rightarrow> ResponseWriter \<Rightarrow> Logger \<Rightarrow> Request
     \<Rightarrow> ResponseWriter \<times> Logger" where
  "Login lib self now now' w lg r =
     (case encodeState lib now r of
        Inl err \<Rightarrow> reject w lg err
      | Inr state \<Rightarrow>
          (let w = http_SetCookie lib w
                     \<lparr>Name = stateCookieName self, Value = state, CookiePath = ''/'',
                      Expires = now' + Hour, MaxAge = 0, HttpOnly = True\<rparr>;
               url = AuthCodeURL lib (Config self) state
           in (http_Redirect lib w r url StatusTemporaryRedirect, lg)))"

text \<open>\<open>authServer.Callback\<close>. A cookie's zero \<open>Expires\<close> is time 0.\<close>

definition Callback ::
  "golib \<Rightarrow> authServer \<Rightarrow> ResponseWriter \<Rightarrow> Logger \<Rightarrow> Request \<Rightarrow> ResponseWriter \<times> Logger" where
  "Callback lib self w lg r =
     (case checkError r of
        Some err \<Rightarrow> reject w lg err
      | None \<Rightarrow>
     (case decodeState lib self r of
        Inl err \<Rightarrow> reject w lg err
      | Inr state \<Rightarrow>
     (case url_Parse lib (RedirectUri state) of
        Inl err \<Rightarrow> reject w lg err
      | Inr redirectUrl \<Rightarrow>
     if Host redirectUrl \<noteq> [] then reject w lg (ErrorString ''Invalid redirect'')
     else
     (case Exchange lib (Config self) (FormValue r ''code'') of
        Inl err \<Rightarrow> reject w lg err
      | Inr token \<Rightarrow>
          (let w = http_SetCookie lib w
                     \<lparr>Name = authCookieName self,
                      Value = TokenType token @ '' '' @ AccessToken token,
                      CookiePath = ''/'', Expires = Expiry token, MaxAge = 0,
                      HttpOnly = True\<rparr>;
               w = http_SetCookie lib w
                     \<lparr>Name = stateCookieName self, Value = [], CookiePath = ''/'',
                      Expires = 0, MaxAge = - 1, HttpOnly = False\<rparr>
           in (http_Redirect lib w r (URL_String lib redirectUrl) StatusTemporaryRedirect,
               lg))))))"

definition Logout ::
  "golib \<Rightarrow> authServer \<Rightarrow> ResponseWriter \<Rightarrow> Logger \<Rightarrow> Request \<Rightarrow> ResponseWriter \<times> Logger" where
  "Logout lib self w lg r =
     (let redirectUri = FormValue r ''redirect_uri'';
          redirectUri = (if redirectUri = [] then ''/'' else redirectUri)
      in case url_Parse lib redirectUri of
           Inl err \<Rightarrow> reject w lg err
         | Inr redirectUrl \<Rightarrow>
             if Host redirectUrl \<noteq> [] then reject w lg (ErrorString ''Invalid redirect'')
             else
               (let w = http_SetCookie lib w
                          \<lparr>Name = authCookieName self, Value = [], CookiePath = ''/'',
                           Expires = 0, MaxAge = - 1, HttpOnly = False\<rparr>
                in (http_Redirect lib w r (URL_String lib redirectUrl)
                      StatusTemporaryRedirect, lg)))"

text \<open>
  \<open>authServer.ModifyHeader\<close>: the returned error, the request as the call leaves it,
  and the logger.
\<close>

definition ModifyHeader ::
  "golib \<Rightarrow> authServer \<Rightarrow> Request \<Rightarrow> Logger \<Rightarrow> go_error option \<times> Request \<times> Logger" where
  "ModifyHeader lib self r lg =
     (case Request_Cookie lib r (authCookieName self) of
        Inl err \<Rightarrow> (None, r, Logger_Debug lg ''Missing authorization cookie'')
      | Inr cookie \<Rightarrow>
          (let h = Header_Add (Header r) ''Authorization'' (Value cookie);
               h = Header_Del h ''Cookie''
           in (None, r\<lparr>Header := h\<rparr>, lg)))"

section \<open>The proxy server (\<^verbatim>\<open>proxy_server.go\<close>)\<close>

text \<open>
  A \<open>Modifier\<close> is \<open>func(r *http.Request) error\<close>: it may change the request it
  is given and write to the logger, and returns an error or nil.
\<close>

type_synonym Modifier = "Request \<Rightarrow> Logger \<Rightarrow> go_error option \<times> Request \<times> Logger"

text \<open>
  \<open>Client\<close> is the embedded \<open>*http.Client\<close>, by what its \<open>Do\<close> returns for a
  request.
\<close>

record proxyServer =
  Client :: "Request \<Rightarrow> go_error + Response"
  Target :: URL
  Modifiers :: "Modifier list"

text \<open>
  The loop that copies a header map into another:
  \<open>for h, val := range src { for _, v := range val { dst.Add(h, v) } }\<close>.
\<close>

fun copyValues :: "Header \<Rightarrow> string \<Rightarrow> string list \<Rightarrow> Header" where
  "copyValues dst h [] = dst"
| "copyValues dst h (v # val) = copyValues (Header_Add dst h v) h val"

fun copyHeader :: "Header \<Rightarrow> Header \<Rightarrow> Header" where
  "copyHeader dst [] = dst"
| "copyHeader dst ((h, val) # src) = copyHeader (copyValues dst h val) src"

text \<open>
  The loop over \<open>self.Modifiers\<close> in \<open>NewRequest\<close>: the first modifier that
  returns an error ends it, with the error wrapped by
  \<open>fmt.Errorf("modifier: %w", err)\<close>.
\<close>

fun runModifiers :: "Modifier list \<Rightarrow> Request \<Rightarrow> Logger \<Rightarrow> (go_error + Request) \<times> Logger" where
  "runModifiers [] req lg = (Inr req, lg)"
| "runModifiers (modifier # ms) req lg =
     (case modifier req lg of
        (Some err, req', lg') \<Rightarrow> (Inl (WrapError ''modifier: '' err), lg')
      | (None, req', lg') \<Rightarrow> runModifiers ms req' lg')"

definition NewRequest ::
  "golib \<Rightarrow> proxyServer \<Rightarrow> Request \<Rightarrow> Logger \<Rightarrow> (go_error + Request) \<times> Logger" where
  "NewRequest lib self r lg =
     (let url = ResolveReference lib (Target self) (URL r);
          lg = Logger_Info lg (''<<< '' @ URL_String lib (URL r))
      in case http_NewRequest lib (Method r) (URL_String lib url) (Body r) of
           Inl err \<Rightarrow> (Inl (WrapError ''new request: '' err), lg)
         | Inr req \<Rightarrow>
             (let req = req\<lparr>Header := copyHeader (Header req) (Header r)\<rparr>
              in case runModifiers (Modifiers self) req lg of
                   (Inl err, lg) \<Rightarrow> (Inl err, lg)
                 | (Inr req, lg) \<Rightarrow>
                     (Inr req, Logger_Info lg (''>>> '' @ URL_String lib (URL req)))))"

text \<open>
  \<open>proxyServer.Stream\<close>. A writer that is no \<open>http.Flusher\<close> gets an error
  reply. Otherwise a goroutine forwards the body while the serving task flushes every
  100 ms until the request's context is done: two concurrent, timed activities. What
  they leave behind is the parameter \<open>relay\<close>.
\<close>

type_synonym StreamRelay =
  "ResponseWriter \<Rightarrow> Logger \<Rightarrow> Request \<Rightarrow> Response \<Rightarrow> ResponseWriter \<times> Logger"

definition Stream ::
  "StreamRelay \<Rightarrow> ResponseWriter \<Rightarrow> Logger \<Rightarrow> Request \<Rightarrow> Response
     \<Rightarrow> ResponseWriter \<times> Logger" where
  "Stream relay w lg r resp =
     (if \<not> flusher w
      then (http_Error w ''Streaming not supported'' StatusInternalServerError, lg)
      else relay w lg r resp)"

text \<open>
  The type switch of \<open>Serve\<close> on the error of \<open>Client.Do\<close>:
  \<open>case *statusError\<close> replies with \<open>t.StatusCode\<close>, \<open>default\<close> with 500.
\<close>

fun replyClientError :: "ResponseWriter \<Rightarrow> go_error \<Rightarrow> ResponseWriter" where
  "replyClientError w (StatusError c e) = http_Error w (Error (StatusError c e)) c"
| "replyClientError w err = http_Error w (Error err) StatusInternalServerError"

text \<open>
  \<open>proxyServer.Serve\<close>. Two of its calls pass a status code that is not a constant
  of the program: the reply to a \<open>*statusError\<close> of \<open>Client.Do\<close>, and
  \<open>w.WriteHeader(resp.StatusCode)\<close>. When such a call panics, \<open>Serve\<close> ends
  there: nothing after the call runs.
\<close>

definition Serve ::
  "golib \<Rightarrow> StreamRelay \<Rightarrow> proxyServer \<Rightarrow> ResponseWriter \<Rightarrow> Logger \<Rightarrow> Request
     \<Rightarrow> ResponseWriter \<times> Logger" where
  "Serve lib relay self w lg r =
     (case NewRequest lib self r lg of
        (Inl err, lg) \<Rightarrow>
          (http_Error w (Error err) StatusInternalServerError,
           Logger_Errorf lg ''new request : '' err)
      | (Inr req, lg) \<Rightarrow>
     (case Client self req of
        Inl err \<Rightarrow>
          (let w = replyClientError w err
           in if panicked w then (w, lg)
              else (w, Logger_Errorf lg ''client do : '' err))
      | Inr resp \<Rightarrow>
          (let w = w\<lparr>w_header := copyHeader (w_header w) (RespHeader resp)\<rparr>;
               w = WriteHeader w (StatusCode resp)
           in if panicked w then (w, lg)
              else if Header_Get (RespHeader resp) ''Content-Type'' = ''text/event-stream''
              then (case Stream relay w lg req resp of
                      (w, lg) \<Rightarrow> (w, Logger_Info lg ''streaming done''))
              else (io_Copy w (RespBody resp), lg))))"

section \<open>The proxy cache (\<^verbatim>\<open>proxyCache\<close>, \<^verbatim>\<open>cacheGetter\<close>, \<^verbatim>\<open>cacheWriter\<close>)\<close>

text \<open>
  The request's context carries two values under the keys \<open>contextKeyUrl\<close> and
  \<open>contextKeyHeaders\<close>. \<open>ctx.Value(k).(T)\<close> succeeds when the newest value under
  \<open>k\<close> has type \<open>T\<close>.
\<close>

datatype contextKey = contextKeyUrl | contextKeyHeaders

datatype ctx_value = CtxString string | CtxHeader Header

type_synonym Context = "(contextKey \<times> ctx_value) list"

definition context_WithValue :: "Context \<Rightarrow> contextKey \<Rightarrow> ctx_value \<Rightarrow> Context" where
  "context_WithValue ctx k v = (k, v) # ctx"

definition context_Value :: "Context \<Rightarrow> contextKey \<Rightarrow> ctx_value option" where
  "context_Value ctx k = map_of ctx k"


text \<open>
  The sink is \<open>groupcache.AllocatingByteSliceSink(&data)\<close>: \<open>None\<close> until
  \<open>SetBytes\<close> stores a value in \<open>data\<close>; \<open>SetBytes\<close> on it returns no error.
\<close>

type_synonym Sink = "string option"

definition SetBytes :: "Sink \<Rightarrow> string \<Rightarrow> go_error option \<times> Sink" where
  "SetBytes s b = (None, Some b)"

definition sink_view :: "Sink \<Rightarrow> string" where
  "sink_view s = (case s of None \<Rightarrow> [] | Some b \<Rightarrow> b)"

record cacheWriter =
  Sink :: Sink
  header :: Header
  bytes :: string
  statusCode :: int

definition NewCacheWriter :: "Sink \<Rightarrow> cacheWriter" where
  "NewCacheWriter sink = \<lparr>Sink = sink, header = [], bytes = [], statusCode = 0\<rparr>"

definition cacheWriter_Write :: "cacheWriter \<Rightarrow> string \<Rightarrow> cacheWriter" where
  "cacheWriter_Write c b = c\<lparr>bytes := bytes c @ b\<rparr>"

definition cacheWriter_WriteHeader :: "cacheWriter \<Rightarrow> int \<Rightarrow> cacheWriter" where
  "cacheWriter_WriteHeader c code = c\<lparr>statusCode := code\<rparr>"

definition WriteCache :: "cacheWriter \<Rightarrow> go_error option \<times> cacheWriter" where
  "WriteCache c =
     (if statusCode c \<ge> 400 then (Some (NewHttpError (statusCode c)), c)
      else (case SetBytes (Sink c) (bytes c) of (err, s) \<Rightarrow> (err, c\<lparr>Sink := s\<rparr>)))"

text \<open>
  The wrapped \<open>http.Handler\<close> is any handler. It reaches the \<open>cacheWriter\<close> only
  through the three methods of \<open>http.ResponseWriter\<close>, so one run of it is the list
  of calls it makes: changes of the map \<open>Header()\<close> returns, \<open>Write\<close> and
  \<open>WriteHeader\<close>. A handler has a state of its own (type \<open>'h\<close>: an upstream, a
  counter), which a run may change.
\<close>

datatype writer_call =
    CallHeaderAdd string string
  | CallHeaderSet string string
  | CallHeaderDel string
  | CallWrite string
  | CallWriteHeader int

type_synonym 'h Handler = "'h \<Rightarrow> Request \<Rightarrow> writer_call list \<times> 'h"

fun cacheWriter_call :: "writer_call \<Rightarrow> cacheWriter \<Rightarrow> cacheWriter" where
  "cacheWriter_call (CallHeaderAdd k v) c = c\<lparr>header := Header_Add (header c) k v\<rparr>"
| "cacheWriter_call (CallHeaderSet k v) c = c\<lparr>header := Header_Set (header c) k v\<rparr>"
| "cacheWriter_call (CallHeaderDel k) c = c\<lparr>header := Header_Del (header c) k\<rparr>"
| "cacheWriter_call (CallWrite b) c = cacheWriter_Write c b"
| "cacheWriter_call (CallWriteHeader code) c = cacheWriter_WriteHeader c code"

definition cacheWriter_calls :: "writer_call list \<Rightarrow> cacheWriter \<Rightarrow> cacheWriter" where
  "cacheWriter_calls calls c = fold cacheWriter_call calls c"

definition createRequest :: "golib \<Rightarrow> Context \<Rightarrow> go_error + Request" where
  "createRequest lib ctx =
     (case context_Value ctx contextKeyUrl of
        Some (CtxString url) \<Rightarrow>
          (case context_Value ctx contextKeyHeaders of
             Some (CtxHeader headers) \<Rightarrow>
               (case http_NewRequest lib ''GET'' url [] of
                  Inl err \<Rightarrow> Inl (WrapError (''request ['' @ url @ ''] : '') err)
                | Inr req \<Rightarrow> Inr (req\<lparr>Header := headers\<rparr>))
           | _ \<Rightarrow> Inl (ErrorString ''headers missing from context''))
      | _ \<Rightarrow> Inl (ErrorString ''url missing from context''))"

text \<open>
  \<open>cacheGetter.Get\<close>: the error, the sink and the handler's state after the call.
\<close>

definition cacheGetter_Get ::
  "golib \<Rightarrow> 'h Handler \<Rightarrow> 'h \<Rightarrow> Context \<Rightarrow> string \<Rightarrow> Sink \<Rightarrow> go_error option \<times> Sink \<times> 'h" where
  "cacheGetter_Get lib handler hs ctx key dest =
     (case createRequest lib ctx of
        Inl err \<Rightarrow> (Some (WrapError (''create request ['' @ key @ ''] : '') err), dest, hs)
      | Inr req \<Rightarrow>
          (case handler hs req of
             (calls, hs') \<Rightarrow>
               (let writer = cacheWriter_calls calls (NewCacheWriter dest)
                in case WriteCache writer of
                     (Some err, writer) \<Rightarrow>
                       (Some (WrapError (''write cache ['' @ key @ ''] : '') err),
                        Sink writer, hs')
                   | (None, writer) \<Rightarrow> (None, Sink writer, hs'))))"

text \<open>
  \<open>groupcache.Group.Get\<close> on one node, as the package documents it: a key in the
  cache sets the sink from the cached bytes without calling the getter; for any other
  key the getter is called, and its value is cached when it returns no error. A load
  that returns an error caches nothing.
\<close>

type_synonym Group = "string \<rightharpoonup> string"

definition Group_Get ::
  "golib \<Rightarrow> 'h Handler \<Rightarrow> Group \<times> 'h \<Rightarrow> Context \<Rightarrow> string \<Rightarrow> Sink
     \<Rightarrow> go_error option \<times> Sink \<times> Group \<times> 'h" where
  "Group_Get lib handler st ctx key dest =
     (case st of (g, hs) \<Rightarrow>
        (case g key of
           Some v \<Rightarrow> (None, Some v, g, hs)
         | None \<Rightarrow>
             (case cacheGetter_Get lib handler hs ctx key dest of
                (Some err, dest', hs') \<Rightarrow> (Some err, dest', g, hs')
              | (None, dest', hs') \<Rightarrow> (None, dest', g(key \<mapsto> sink_view dest'), hs'))))"



section \<open>An instance of the libraries, for running the model\<close>

text \<open>
  The theorems hold for every library record. To run the handlers on concrete
  requests, \<open>lib0\<close> is one instance: small implementations that agree with Go on the
  plain inputs of the examples below (cookie values plain or in double quotes, URLs
  without user information or escapes, JSON strings without escapes, standard base64).
\<close>

fun splitOn :: "char \<Rightarrow> string \<Rightarrow> string list" where
  "splitOn sep [] = [[]]"
| "splitOn sep (c # cs) =
     (if c = sep then [] # splitOn sep cs
      else (case splitOn sep cs of [] \<Rightarrow> [[c]] | p # ps \<Rightarrow> (c # p) # ps))"

definition quote :: char where
  "quote = CHR 0x22"

definition stripQuotes :: "string \<Rightarrow> string" where
  "stripQuotes v =
     (if length v > 1 \<and> hd v = quote \<and> last v = quote then butlast (tl v) else v)"

definition cookiePart :: "string \<Rightarrow> string \<Rightarrow> Cookie list" where
  "cookiePart name part =
     (let part = dropWhile (\<lambda>c. c = CHR '' '') part;
          n = takeWhile (\<lambda>c. c \<noteq> CHR ''='') part;
          v = stripQuotes (drop 1 (dropWhile (\<lambda>c. c \<noteq> CHR ''='') part))
      in if n = name
         then [\<lparr>Name = n, Value = v, CookiePath = [], Expires = 0, MaxAge = 0,
                HttpOnly = False\<rparr>]
         else [])"

definition parseCookies0 :: "string list \<Rightarrow> string \<Rightarrow> Cookie list" where
  "parseCookies0 lines name =
     concat (map (\<lambda>line. concat (map (cookiePart name) (splitOn CHR '';'' line))) lines)"

text \<open>The \<open>Set-Cookie\<close> line, without the \<open>Expires\<close> attribute.\<close>

definition Cookie_String0 :: "Cookie \<Rightarrow> string" where
  "Cookie_String0 c =
     (if Name c = [] then []
      else Name c @ ''=''
           @ (if CHR '' '' \<in> set (Value c) \<or> CHR '','' \<in> set (Value c)
              then [quote] @ Value c @ [quote] else Value c)
           @ (if CookiePath c \<noteq> [] then ''; Path='' @ CookiePath c else [])
           @ (if MaxAge c < 0 then ''; Max-Age=0'' else [])
           @ (if HttpOnly c then ''; HttpOnly'' else []))"

definition pathAndQuery :: "string \<Rightarrow> string \<Rightarrow> string \<Rightarrow> URL" where
  "pathAndQuery scheme host rest =
     \<lparr>Scheme = scheme, Opaque = [], Host = host,
      Path = takeWhile (\<lambda>c. c \<noteq> CHR ''?'') rest,
      ForceQuery = False, RawQuery = drop 1 (dropWhile (\<lambda>c. c \<noteq> CHR ''?'') rest),
      Fragment = []\<rparr>"

definition afterSlashes :: "string \<Rightarrow> string \<Rightarrow> URL" where
  "afterSlashes scheme rest =
     pathAndQuery scheme (takeWhile (\<lambda>c. c \<noteq> CHR ''/'') rest)
       (dropWhile (\<lambda>c. c \<noteq> CHR ''/'') rest)"

definition url_Parse0 :: "string \<Rightarrow> go_error + URL" where
  "url_Parse0 s =
     (let scheme = takeWhile (\<lambda>c. c \<noteq> CHR '':'' \<and> c \<noteq> CHR ''/'') s;
          rest = drop (length scheme) s
      in if take 3 rest = ''://'' then
           (if scheme = [] then Inl (LibError ''missing protocol scheme'')
            else Inr (afterSlashes scheme (drop 3 rest)))
         else if take 2 s = ''//'' then Inr (afterSlashes [] (drop 2 s))
         else Inr (pathAndQuery [] [] s))"

definition URL_hierPart0 :: "string \<Rightarrow> string \<Rightarrow> string \<Rightarrow> string \<Rightarrow> string" where
  "URL_hierPart0 scheme opaque host path =
     (if opaque \<noteq> [] then scheme @ '':'' @ opaque
      else (if scheme \<noteq> [] then scheme @ ''://'' else if host \<noteq> [] then ''//'' else [])
           @ host @ path)"

text \<open>The nanoseconds since the zero time, in decimal, stand for the formatted time.\<close>

definition layoutOf :: "char \<Rightarrow> layout_char" where
  "layoutOf c = (if c = CHR ''-'' then LayoutMinus else LayoutDigit (of_char c - 48))"

definition Time_layout0 :: "time \<Rightarrow> layout_char list" where
  "Time_layout0 t = map layoutOf (fmt_d t)"

definition ResolveReference0 :: "URL \<Rightarrow> URL \<Rightarrow> URL" where
  "ResolveReference0 base ref =
     (if Scheme ref \<noteq> [] \<or> Host ref \<noteq> [] then ref
      else ref\<lparr>Scheme := Scheme base, Host := Host base\<rparr>)"

definition json_Marshal0 :: "State \<Rightarrow> go_error + string" where
  "json_Marshal0 st =
     Inr (''{'' @ [quote] @ ''RedirectUri'' @ [quote] @ '':'' @ [quote] @ RedirectUri st
          @ [quote] @ '','' @ [quote] @ ''Timestamp'' @ [quote] @ '':''
          @ fmt_d (Timestamp st) @ ''}'')"

fun stripPrefix :: "string \<Rightarrow> string \<Rightarrow> string option" where
  "stripPrefix [] s = Some s"
| "stripPrefix (p # ps) [] = None"
| "stripPrefix (p # ps) (c # cs) = (if p = c then stripPrefix ps cs else None)"

fun readDigits :: "int \<Rightarrow> string \<Rightarrow> int option" where
  "readDigits acc [] = Some acc"
| "readDigits acc (c # cs) =
     (case map_of (zip ''0123456789'' [0, 1, 2, 3, 4, 5, 6, 7, 8, 9]) c of
        None \<Rightarrow> None
      | Some d \<Rightarrow> readDigits (10 * acc + d) cs)"

definition json_Unmarshal0 :: "string \<Rightarrow> go_error + State" where
  "json_Unmarshal0 s =
     (case stripPrefix (''{'' @ [quote] @ ''RedirectUri'' @ [quote] @ '':'' @ [quote]) s of
        None \<Rightarrow> Inl (LibError ''invalid character'')
      | Some rest \<Rightarrow>
          (let uri = takeWhile (\<lambda>c. c \<noteq> quote) rest;
               rest = dropWhile (\<lambda>c. c \<noteq> quote) rest
           in case stripPrefix ([quote] @ '','' @ [quote] @ ''Timestamp'' @ [quote] @ '':'') rest of
                None \<Rightarrow> Inl (LibError ''invalid character'')
              | Some ds \<Rightarrow>
                  (case readDigits 0 (takeWhile (\<lambda>c. c \<noteq> CHR ''}'') ds) of
                     None \<Rightarrow> Inl (LibError ''invalid character'')
                   | Some n \<Rightarrow>
                       if dropWhile (\<lambda>c. c \<noteq> CHR ''}'') ds = ''}''
                       then Inr \<lparr>RedirectUri = uri, Timestamp = n\<rparr>
                       else Inl (LibError ''invalid character''))))"

definition encodeStd :: string where
  "encodeStd = ''ABCDEFGHIJKLMNOPQRSTUVWXYZabcdefghijklmnopqrstuvwxyz0123456789+/''"

fun b64enc :: "nat list \<Rightarrow> string" where
  "b64enc [] = []"
| "b64enc [a] =
     [encodeStd ! (a div 4), encodeStd ! (a mod 4 * 16), CHR ''='', CHR ''='']"
| "b64enc [a, b] =
     [encodeStd ! (a div 4), encodeStd ! (a mod 4 * 16 + b div 16),
      encodeStd ! (b mod 16 * 4), CHR ''='']"
| "b64enc (a # b # c # bs) =
     [encodeStd ! (a div 4), encodeStd ! (a mod 4 * 16 + b div 16),
      encodeStd ! (b mod 16 * 4 + c div 64), encodeStd ! (c mod 64)] @ b64enc bs"

definition base64_EncodeToString0 :: "string \<Rightarrow> string" where
  "base64_EncodeToString0 s = b64enc (map of_char s)"

definition b64index :: "char \<Rightarrow> nat option" where
  "b64index c = map_of (zip encodeStd [0 ..< 64]) c"

fun b64dec :: "string \<Rightarrow> nat list option" where
  "b64dec [] = Some []"
| "b64dec (c1 # c2 # c3 # c4 # cs) =
     (case (b64index c1, b64index c2) of
        (Some i1, Some i2) \<Rightarrow>
          (if c3 = CHR ''='' \<and> c4 = CHR ''='' \<and> cs = [] then Some [i1 * 4 + i2 div 16]
           else (case b64index c3 of
                   None \<Rightarrow> None
                 | Some i3 \<Rightarrow>
                     (if c4 = CHR ''='' \<and> cs = []
                      then Some [i1 * 4 + i2 div 16, i2 mod 16 * 16 + i3 div 4]
                      else (case (b64index c4, b64dec cs) of
                              (Some i4, Some bs) \<Rightarrow>
                                Some ([i1 * 4 + i2 div 16, i2 mod 16 * 16 + i3 div 4,
                                       i3 mod 4 * 64 + i4] @ bs)
                            | _ \<Rightarrow> None))))
      | _ \<Rightarrow> None)"
| "b64dec _ = None"

definition base64_DecodeString0 :: "string \<Rightarrow> go_error + string" where
  "base64_DecodeString0 s =
     (case b64dec s of
        None \<Rightarrow> Inl (LibError ''illegal base64 data'')
      | Some bs \<Rightarrow> Inr (map char_of bs))"

definition AuthCodeURL0 :: "Config \<Rightarrow> string \<Rightarrow> string" where
  "AuthCodeURL0 c st =
     AuthURL c @ ''?access_type=offline&client_id='' @ ClientID c
       @ ''&response_type=code&state='' @ st"

text \<open>The example identity provider: it knows one authorization code.\<close>

definition Exchange0 :: "Config \<Rightarrow> string \<Rightarrow> go_error + Token" where
  "Exchange0 c code =
     (if code = ''abc''
      then Inr \<lparr>AccessToken = ''tok123'', TokenType = ''Bearer'', RefreshToken = [],
                Expiry = 63835600400 * Second\<rparr>
      else Inl (LibError ''oauth2: cannot fetch token''))"

definition http_NewRequest0 :: "string \<Rightarrow> string \<Rightarrow> string \<Rightarrow> go_error + Request" where
  "http_NewRequest0 method url body =
     (case url_Parse0 url of
        Inl err \<Rightarrow> Inl err
      | Inr u \<Rightarrow> Inr \<lparr>Method = method, URL = u, Header = [], Form = [], Body = body\<rparr>)"

definition lib0 :: golib where
  "lib0 =
     \<lparr>parseCookies = parseCookies0,
      Cookie_String = Cookie_String0,
      url_Parse = url_Parse0,
      URL_hierPart = URL_hierPart0,
      EscapedFragment = (\<lambda>f. f),
      ResolveReference = ResolveReference0,
      json_Marshal = json_Marshal0,
      json_Unmarshal = json_Unmarshal0,
      base64_EncodeToString = base64_EncodeToString0,
      base64_DecodeString = base64_DecodeString0,
      AuthCodeURL = AuthCodeURL0,
      Exchange = Exchange0,
      redirectLocation = (\<lambda>r url. url),
      http_NewRequest = http_NewRequest0,
      Time_layout = Time_layout0\<rparr>"

section \<open>Notions the properties are stated with\<close>

text \<open>Whether a call of the handler is a \<open>WriteHeader\<close>, and the bytes its calls write.\<close>

fun isWriteHeader :: "writer_call \<Rightarrow> bool" where
  "isWriteHeader (CallWriteHeader code) = True"
| "isWriteHeader _ = False"

fun writtenBytes :: "writer_call list \<Rightarrow> string" where
  "writtenBytes [] = []"
| "writtenBytes (CallWrite b # calls) = b @ writtenBytes calls"
| "writtenBytes (_ # calls) = writtenBytes calls"


text \<open>
  What \<open>Callback\<close> does after state validation, with the state validation returned:
  the statements of \<open>Callback\<close> from \<open>url.Parse(state.RedirectUri)\<close> to its end.
  \<open>Callback\<close> proceeds past state validation when it is this continuation.
\<close>

definition afterStateValidation ::
  "golib \<Rightarrow> authServer \<Rightarrow> ResponseWriter \<Rightarrow> Logger \<Rightarrow> Request \<Rightarrow> State
     \<Rightarrow> ResponseWriter \<times> Logger" where
  "afterStateValidation lib self w lg r state =
     (case url_Parse lib (RedirectUri state) of
        Inl err \<Rightarrow> reject w lg err
      | Inr redirectUrl \<Rightarrow>
     if Host redirectUrl \<noteq> [] then reject w lg (ErrorString ''Invalid redirect'')
     else
     (case Exchange lib (Config self) (FormValue r ''code'') of
        Inl err \<Rightarrow> reject w lg err
      | Inr token \<Rightarrow>
          (let w = http_SetCookie lib w
                     \<lparr>Name = authCookieName self,
                      Value = TokenType token @ '' '' @ AccessToken token,
                      CookiePath = ''/'', Expires = Expiry token, MaxAge = 0,
                      HttpOnly = True\<rparr>;
               w = http_SetCookie lib w
                     \<lparr>Name = stateCookieName self, Value = [], CookiePath = ''/'',
                      Expires = 0, MaxAge = - 1, HttpOnly = False\<rparr>
           in (http_Redirect lib w r (URL_String lib redirectUrl) StatusTemporaryRedirect,
               lg))))"

text \<open>
  The status codes \<open>WriteHeader\<close> sends as the status of the response: 101 and the
  codes from 200 to 999.
\<close>

definition finalStatus :: "int \<Rightarrow> bool" where
  "finalStatus code = ((200 \<le> code \<or> code = 101) \<and> code \<le> 999)"

section \<open>Example requests and handlers\<close>

text \<open>
  The context \<open>proxyCache.ServeHTTP\<close> builds for \<open>GET /data?x=1\<close>, and the
  request \<open>createRequest\<close> makes from it.
\<close>

definition ctx0 :: Context where
  "ctx0 = context_WithValue (context_WithValue [] contextKeyUrl (CtxString ''/data?x=1''))
            contextKeyHeaders (CtxHeader [(''Accept'', [''*/*''])])"

definition req0 :: Request where
  "req0 = \<lparr>Method = ''GET'',
           URL = \<lparr>Scheme = [], Opaque = [], Host = [], Path = ''/data'',
                     ForceQuery = False, RawQuery = ''x=1'', Fragment = []\<rparr>,
           Header = [(''Accept'', [''*/*''])], Form = [], Body = []\<rparr>"





text \<open>
  A handler whose upstream is down on its first run and answers from the second on;
  its state counts the runs.
\<close>

definition calls502 :: "writer_call list" where
  "calls502 = [CallHeaderSet ''Content-Type'' ''text/plain; charset=utf-8'',
               CallWriteHeader 502, CallWrite ''bad gateway'']"

definition flakyHandler :: "nat Handler" where
  "flakyHandler n req =
     (if n = 0 then (calls502, Suc n)
      else ([CallWriteHeader 200, CallWrite ''data''], Suc n))"

text \<open>A handler that writes a body in two pieces and never calls \<open>WriteHeader\<close>.\<close>

definition bodyOnlyHandler :: "unit Handler" where
  "bodyOnlyHandler u req = ([CallWrite ''hello, '', CallWrite ''world''], ())"

text \<open>The example deployment and its requests.\<close>

definition cfg0 :: Config where
  "cfg0 = \<lparr>ClientID = ''wx'', ClientSecret = ''secret'',
           AuthURL = ''https://idp.example/authorize'',
           TokenURL = ''https://idp.example/token'',
           RedirectURL = ''https://wx.example/auth/callback'', Scopes = [''openid'']\<rparr>"

definition auth0 :: authServer where
  "auth0 = NewAuthServer cfg0"

definition pathURL :: "string \<Rightarrow> URL" where
  "pathURL p = \<lparr>Scheme = [], Opaque = [], Host = [], Path = p, ForceQuery = False, RawQuery = [], Fragment = []\<rparr>"

definition urlEvil :: URL where
  "urlEvil = \<lparr>Scheme = ''http'', Opaque = [], Host = ''evil.example'', Path = ''/'',
     ForceQuery = False, RawQuery = [], Fragment = []\<rparr>"

text \<open>
  November 14, 2023, 22:13:20 UTC (Unix time 1700000000), and the state tokens of a
  login at that time for the targets \<open>/dashboard\<close> and \<open>http://evil.example/\<close>.
\<close>

definition now0 :: time where
  "now0 = 63835596800 * Second"

definition stateDashboard :: string where
  "stateDashboard = ''eyJSZWRpcmVjdFVyaSI6Ii9kYXNoYm9hcmQiLCJUaW1lc3RhbXAiOjE3MDAwMDAwMDB9''"

definition stateEvil :: string where
  "stateEvil =
     ''eyJSZWRpcmVjdFVyaSI6Imh0dHA6Ly9ldmlsLmV4YW1wbGUvIiwiVGltZXN0YW1wIjoxNzAwMDAwMDAwfQ==''"

definition reqOtherCookie :: Request where
  "reqOtherCookie = \<lparr>Method = ''GET'', URL = pathURL ''/api/items'',
     Header = [(''Cookie'', [''theme=dark''])], Form = [], Body = []\<rparr>"

definition reqAuthCookie :: Request where
  "reqAuthCookie = \<lparr>Method = ''GET'', URL = pathURL ''/api/items'',
     Header = [(''Accept'', [''*/*'']),
               (''Cookie'', [''theme=dark; auth='' @ [quote] @ ''Bearer tok123'' @ [quote]])],
     Form = [], Body = []\<rparr>"

definition authCookie0 :: Cookie where
  "authCookie0 = \<lparr>Name = ''auth'', Value = ''Bearer tok123'', CookiePath = [], Expires = 0,
     MaxAge = 0, HttpOnly = False\<rparr>"

definition reqLoginEvil :: Request where
  "reqLoginEvil = \<lparr>Method = ''GET'', URL = pathURL ''/auth/login'', Header = [],
     Form = [(''redirect_uri'', [''http://evil.example/''])], Body = []\<rparr>"

definition reqLogoutEvil :: Request where
  "reqLogoutEvil = \<lparr>Method = ''GET'', URL = pathURL ''/auth/logout'',
     Header = [(''Cookie'', [''auth='' @ [quote] @ ''Bearer tok123'' @ [quote]])],
     Form = [(''redirect_uri'', [''http://evil.example/''])], Body = []\<rparr>"

text \<open>
  A callback request: the state cookie the browser holds, the \<open>state\<close> parameter
  of the request and the authorization code.
\<close>

definition reqCallback :: "string \<Rightarrow> string \<Rightarrow> string \<Rightarrow> Request" where
  "reqCallback cookieState formState code =
     \<lparr>Method = ''GET'', URL = pathURL ''/auth/callback'',
      Header = [(''Cookie'', [''state='' @ cookieState])],
      Form = [(''code'', [code]), (''state'', [formState])], Body = []\<rparr>"

definition stateCookie0 :: Cookie where
  "stateCookie0 = \<lparr>Name = ''state'', Value = stateDashboard, CookiePath = [], Expires = 0,
     MaxAge = 0, HttpOnly = False\<rparr>"

text \<open>
  A callback request that carries an \<open>error\<close> parameter next to a valid code and a
  \<open>state\<close> parameter equal to the state cookie.
\<close>

definition reqCallbackDenied :: Request where
  "reqCallbackDenied =
     \<lparr>Method = ''GET'', URL = pathURL ''/auth/callback'',
      Header = [(''Cookie'', [''state='' @ stateDashboard])],
      Form = [(''error'', [''access_denied'']), (''error_description'', [''denied'']),
              (''code'', [''abc'']), (''state'', [stateDashboard])],
      Body = []\<rparr>"

text \<open>The example proxy, in front of an upstream with two resources.\<close>

definition targetURL :: URL where
  "targetURL = \<lparr>Scheme = ''https'', Opaque = [], Host = ''api.example'', Path = ''/api/'',
     ForceQuery = False, RawQuery = [], Fragment = []\<rparr>"

definition upstream0 :: "Request \<Rightarrow> go_error + Response" where
  "upstream0 req =
     (if Path (URL req) = ''/api/items'' then
        Inr \<lparr>StatusCode = 200,
             RespHeader = [(''Content-Type'', [''application/json'']),
                           (''Set-Cookie'', [''a=1'', ''b=2''])],
             RespBody = ''[1,2,3]''\<rparr>
      else if Path (URL req) = ''/api/events'' then
        Inr \<lparr>StatusCode = 200,
             RespHeader = [(''Content-Type'', [''text/event-stream''])],
             RespBody = ''data: 1''\<rparr>
      else Inl (LibError ''dial tcp: connection refused''))"


definition token0 :: Token where
  "token0 = \<lparr>AccessToken = ''tok123'', TokenType = ''Bearer'', RefreshToken = [],
     Expiry = 63835600400 * Second\<rparr>"

text \<open>A modifier that refuses every request with a status-carrying error.\<close>

definition denyModifier :: Modifier where
  "denyModifier =
     (\<lambda>req lg. (Some (NewStatusError 401 (Some (ErrorString ''login required''))), req, lg))"


definition proxyDeny :: proxyServer where
  "proxyDeny = \<lparr>Client = upstream0, Target = targetURL, Modifiers = [denyModifier]\<rparr>"



text \<open>One outcome of the stream relay: the body is forwarded, then the context ends.\<close>

definition relay0 :: StreamRelay where
  "relay0 w lg r resp = (Write w (RespBody resp), Logger_Info lg ''context done'')"

section \<open>Properties of the proxy cache\<close>

lemma Sink_cacheWriter_call: "Sink (cacheWriter_call x c) = Sink c"
  by (cases x) (simp_all add: cacheWriter_Write_def cacheWriter_WriteHeader_def)

lemma Sink_cacheWriter_calls: "Sink (cacheWriter_calls calls c) = Sink c"
  unfolding cacheWriter_calls_def
  by (induction calls arbitrary: c) (simp_all add: Sink_cacheWriter_call)

lemma bytes_cacheWriter_calls:
  "bytes (cacheWriter_calls calls c) = bytes c @ writtenBytes calls"
  unfolding cacheWriter_calls_def
proof (induction calls arbitrary: c)
  case Nil
  show ?case by simp
next
  case (Cons x calls)
  show ?case
    by (cases x) (simp_all add: Cons.IH cacheWriter_Write_def cacheWriter_WriteHeader_def)
qed

lemma statusCode_cacheWriter_calls:
  "\<not> list_ex isWriteHeader calls \<Longrightarrow> statusCode (cacheWriter_calls calls c) = statusCode c"
  unfolding cacheWriter_calls_def
proof (induction calls arbitrary: c)
  case Nil
  show ?case by simp
next
  case (Cons x calls)
  then show ?case
    by (cases x) (simp_all add: cacheWriter_Write_def)
qed

lemma WriteCache_error:
  "400 \<le> statusCode c \<Longrightarrow> WriteCache c = (Some (HttpError (statusCode c)), c)"
  by (simp add: WriteCache_def NewHttpError_def)

lemma WriteCache_stores:
  "statusCode c < 400 \<Longrightarrow> WriteCache c = (None, c\<lparr>Sink := Some (bytes c)\<rparr>)"
  by (simp add: WriteCache_def SetBytes_def)

lemma cacheGetter_Get_error:
  assumes "createRequest lib ctx = Inr req" and "handler hs req = (calls, hs')"
    and "400 \<le> statusCode (cacheWriter_calls calls (NewCacheWriter dest))"
  shows "cacheGetter_Get lib handler hs ctx key dest =
           (Some (WrapError (''write cache ['' @ key @ ''] : '')
                    (HttpError (statusCode (cacheWriter_calls calls (NewCacheWriter dest))))),
            dest, hs')"
  using assms
  by (simp add: cacheGetter_Get_def WriteCache_error Sink_cacheWriter_calls NewCacheWriter_def)

lemma cacheGetter_Get_stores:
  assumes "createRequest lib ctx = Inr req" and "handler hs req = (calls, hs')"
    and "statusCode (cacheWriter_calls calls (NewCacheWriter dest)) < 400"
  shows "cacheGetter_Get lib handler hs ctx key dest = (None, Some (writtenBytes calls), hs')"
  using assms
  by (simp add: cacheGetter_Get_def WriteCache_stores bytes_cacheWriter_calls NewCacheWriter_def)

lemma Group_Get_miss:
  "g key = None \<Longrightarrow>
   Group_Get lib handler (g, hs) ctx key dest =
     (case cacheGetter_Get lib handler hs ctx key dest of
        (Some err, dest', hs') \<Rightarrow> (Some err, dest', g, hs')
      | (None, dest', hs') \<Rightarrow> (None, dest', g(key \<mapsto> sink_view dest'), hs'))"
  by (simp add: Group_Get_def)

lemma createRequest_ctx0: "createRequest lib0 ctx0 = Inr req0"
  by code_simp

text \<open>
  Claim C8. Let \<open>writer\<close> be the \<open>cacheWriter\<close> after the wrapped handler has run on
  the request of a cache load. If its captured status is at least 400, \<open>WriteCache\<close>
  returns an \<open>HttpError\<close> with that status and leaves the sink as it was; the load
  (\<open>cacheGetter.Get\<close>) returns an error in which \<open>errors.As\<close> finds that status, the
  group caches nothing, and the next \<open>Get\<close> of the same key runs the handler again
  (from the state the first run left). If the captured status is below 400, the bytes
  the handler wrote are set in the sink and cached under the key.
\<close>

theorem C8_error_status_is_never_cached:
  assumes "createRequest lib ctx = Inr req"
    and "handler hs req = (calls, hs')"
    and "writer = cacheWriter_calls calls (NewCacheWriter dest)"
    and "g key = None"
  shows
    "(400 \<le> statusCode writer \<longrightarrow>
        WriteCache writer = (Some (HttpError (statusCode writer)), writer)
      \<and> Sink writer = dest
      \<and> (\<exists>err. cacheGetter_Get lib handler hs ctx key dest = (Some err, dest, hs')
              \<and> As_HttpError err = Some (statusCode writer)
              \<and> Group_Get lib handler (g, hs) ctx key dest = (Some err, dest, g, hs'))
      \<and> Group_Get lib handler (g, hs') ctx' key dest' =
            (case cacheGetter_Get lib handler hs' ctx' key dest' of
               (Some err, d, h) \<Rightarrow> (Some err, d, g, h)
             | (None, d, h) \<Rightarrow> (None, d, g(key \<mapsto> sink_view d), h)))
   \<and> (statusCode writer < 400 \<longrightarrow>
        WriteCache writer = (None, writer\<lparr>Sink := Some (bytes writer)\<rparr>)
      \<and> bytes writer = writtenBytes calls
      \<and> cacheGetter_Get lib handler hs ctx key dest = (None, Some (bytes writer), hs')
      \<and> Group_Get lib handler (g, hs) ctx key dest =
            (None, Some (bytes writer), g(key \<mapsto> bytes writer), hs'))"
proof (intro conjI impI)
  assume bad: "400 \<le> statusCode writer"
  show "WriteCache writer = (Some (HttpError (statusCode writer)), writer)"
    using bad by (rule WriteCache_error)
  show "Sink writer = dest"
    by (simp add: assms(3) Sink_cacheWriter_calls NewCacheWriter_def)
  have get: "cacheGetter_Get lib handler hs ctx key dest =
      (Some (WrapError (''write cache ['' @ key @ ''] : '') (HttpError (statusCode writer))),
       dest, hs')"
    using cacheGetter_Get_error [where handler = handler and hs = hs and key = key and dest = dest]
      assms(1,2,3) bad by simp
  show "\<exists>err. cacheGetter_Get lib handler hs ctx key dest = (Some err, dest, hs')
              \<and> As_HttpError err = Some (statusCode writer)
              \<and> Group_Get lib handler (g, hs) ctx key dest = (Some err, dest, g, hs')"
    using get assms(4) by (simp add: Group_Get_miss)
  show "Group_Get lib handler (g, hs') ctx' key dest' =
            (case cacheGetter_Get lib handler hs' ctx' key dest' of
               (Some err, d, h) \<Rightarrow> (Some err, d, g, h)
             | (None, d, h) \<Rightarrow> (None, d, g(key \<mapsto> sink_view d), h))"
    using assms(4) by (rule Group_Get_miss)
next
  assume ok: "statusCode writer < 400"
  show "WriteCache writer = (None, writer\<lparr>Sink := Some (bytes writer)\<rparr>)"
    using ok by (rule WriteCache_stores)
  show b: "bytes writer = writtenBytes calls"
    by (simp add: assms(3) bytes_cacheWriter_calls NewCacheWriter_def)
  have get: "cacheGetter_Get lib handler hs ctx key dest = (None, Some (writtenBytes calls), hs')"
    using cacheGetter_Get_stores [where handler = handler and hs = hs and key = key and dest = dest]
      assms(1,2,3) ok by simp
  show "cacheGetter_Get lib handler hs ctx key dest = (None, Some (bytes writer), hs')"
    using get b by simp
  show "Group_Get lib handler (g, hs) ctx key dest =
            (None, Some (bytes writer), g(key \<mapsto> bytes writer), hs')"
    using get b assms(4) by (simp add: Group_Get_miss sink_view_def)
qed

text \<open>
  The flaky handler behind an empty group: the first \<open>Get\<close> fails with status 502 and
  the cache stays empty; the second \<open>Get\<close> of the key runs the handler again and
  caches its body.
\<close>

theorem C8_witness:
  "createRequest lib0 ctx0 = Inr req0
   \<and> flakyHandler 0 req0 = (calls502, 1)
   \<and> statusCode (cacheWriter_calls calls502 (NewCacheWriter None)) = 502
   \<and> (\<exists>err. Group_Get lib0 flakyHandler (Map.empty, 0) ctx0 ''k'' None
               = (Some err, None, Map.empty, 1)
            \<and> As_HttpError err = Some 502)
   \<and> flakyHandler 1 req0 = ([CallWriteHeader 200, CallWrite ''data''], 2)
   \<and> Group_Get lib0 flakyHandler (Map.empty, 1) ctx0 ''k'' None
       = (None, Some ''data'', [''k'' \<mapsto> ''data''], 2)"
proof -
  have run: "flakyHandler 0 req0 = (calls502, 1)"
    by (simp add: flakyHandler_def)
  have st: "statusCode (cacheWriter_calls calls502 (NewCacheWriter None)) = 502"
    by (simp add: calls502_def cacheWriter_calls_def cacheWriter_WriteHeader_def
        cacheWriter_Write_def NewCacheWriter_def)
  have first: "\<exists>err. cacheGetter_Get lib0 flakyHandler 0 ctx0 ''k'' None = (Some err, None, 1)
              \<and> As_HttpError err = Some 502
              \<and> Group_Get lib0 flakyHandler (Map.empty, 0) ctx0 ''k'' None
                   = (Some err, None, Map.empty, 1)"
    using C8_error_status_is_never_cached
      [where handler = flakyHandler and hs = 0 and g = Map.empty and key = "''k''"
         and dest = None, OF createRequest_ctx0 run refl] st
    by simp
  have run': "flakyHandler 1 req0 = ([CallWriteHeader 200, CallWrite ''data''], 2)"
    by (simp add: flakyHandler_def)
  have st': "statusCode (cacheWriter_calls [CallWriteHeader 200, CallWrite ''data'']
               (NewCacheWriter None)) = 200"
    by (simp add: cacheWriter_calls_def cacheWriter_WriteHeader_def cacheWriter_Write_def
        NewCacheWriter_def)
  have second: "Group_Get lib0 flakyHandler (Map.empty, 1) ctx0 ''k'' None
       = (None, Some ''data'', [''k'' \<mapsto> ''data''], 2)"
    using C8_error_status_is_never_cached
      [where handler = flakyHandler and hs = 1 and g = Map.empty and key = "''k''"
         and dest = None, OF createRequest_ctx0 run' refl] st'
    by simp
  show ?thesis
    using createRequest_ctx0 run st first run' second by blast
qed

text \<open>
  Claim C10. A handler that never calls \<open>WriteHeader\<close> leaves the captured status
  at 0, so \<open>WriteCache\<close> sets the bytes it wrote in the sink, the load returns no
  error and the group caches the body.
\<close>

theorem C10_body_without_WriteHeader_is_cached:
  assumes "createRequest lib ctx = Inr req"
    and "handler hs req = (calls, hs')"
    and "\<not> list_ex isWriteHeader calls"
    and "g key = None"
  shows "statusCode (cacheWriter_calls calls (NewCacheWriter dest)) = 0
       \<and> WriteCache (cacheWriter_calls calls (NewCacheWriter dest)) =
           (None, (cacheWriter_calls calls (NewCacheWriter dest))\<lparr>Sink := Some (writtenBytes calls)\<rparr>)
       \<and> cacheGetter_Get lib handler hs ctx key dest = (None, Some (writtenBytes calls), hs')
       \<and> Group_Get lib handler (g, hs) ctx key dest =
           (None, Some (writtenBytes calls), g(key \<mapsto> writtenBytes calls), hs')"
proof -
  let ?c = "cacheWriter_calls calls (NewCacheWriter dest)"
  have s: "statusCode ?c = 0"
    using statusCode_cacheWriter_calls [OF assms(3)] by (simp add: NewCacheWriter_def)
  have b: "bytes ?c = writtenBytes calls"
    by (simp add: bytes_cacheWriter_calls NewCacheWriter_def)
  have w: "WriteCache ?c = (None, ?c\<lparr>Sink := Some (writtenBytes calls)\<rparr>)"
    using WriteCache_stores [of ?c] s b by simp
  have get: "cacheGetter_Get lib handler hs ctx key dest = (None, Some (writtenBytes calls), hs')"
    using cacheGetter_Get_stores [where handler = handler and hs = hs and key = key and dest = dest]
      assms(1,2) s by simp
  have grp: "Group_Get lib handler (g, hs) ctx key dest =
           (None, Some (writtenBytes calls), g(key \<mapsto> writtenBytes calls), hs')"
    using get assms(4) by (simp add: Group_Get_miss sink_view_def)
  show ?thesis using s w get grp by simp
qed

text \<open>The handler that only writes: its body is cached under the key.\<close>

theorem C10_witness:
  "createRequest lib0 ctx0 = Inr req0
   \<and> \<not> list_ex isWriteHeader [CallWrite ''hello, '', CallWrite ''world'']
   \<and> statusCode (cacheWriter_calls [CallWrite ''hello, '', CallWrite ''world'']
        (NewCacheWriter None)) = 0
   \<and> Group_Get lib0 bodyOnlyHandler (Map.empty, ()) ctx0 ''k'' None
       = (None, Some ''hello, world'', [''k'' \<mapsto> ''hello, world''], ())"
proof -
  have run: "bodyOnlyHandler () req0 = ([CallWrite ''hello, '', CallWrite ''world''], ())"
    by (simp add: bodyOnlyHandler_def)
  have no: "\<not> list_ex isWriteHeader [CallWrite ''hello, '', CallWrite ''world'']"
    by simp
  show ?thesis
    using C10_body_without_WriteHeader_is_cached
      [where handler = bodyOnlyHandler and hs = "()" and g = Map.empty and key = "''k''"
         and dest = None, OF createRequest_ctx0 run no] createRequest_ctx0 no
    by simp
qed

section \<open>Properties of the header operations\<close>

lemma canonical_Cookie: "CanonicalMIMEHeaderKey ''Cookie'' = ''Cookie''"
  by code_simp
lemma canonical_Authorization: "CanonicalMIMEHeaderKey ''Authorization'' = ''Authorization''"
  by code_simp
lemma canonical_Location: "CanonicalMIMEHeaderKey ''Location'' = ''Location''"
  by code_simp
lemma canonical_Set_Cookie: "CanonicalMIMEHeaderKey ''Set-Cookie'' = ''Set-Cookie''"
  by code_simp

lemma header_values_update:
  "header_values (AList.update k vs h) k' = (if k' = k then vs else header_values h k')"
  by (simp add: header_values_def update_conv')

lemma header_values_delete:
  "header_values (AList.delete k h) k' = (if k' = k then [] else header_values h k')"
  by (simp add: header_values_def delete_conv')

lemma header_values_Add:
  "header_values (Header_Add h key v) k =
     (if k = CanonicalMIMEHeaderKey key then header_values h k @ [v] else header_values h k)"
  by (simp add: Header_Add_def Let_def header_values_update)

lemma header_values_Set:
  "header_values (Header_Set h key v) k =
     (if k = CanonicalMIMEHeaderKey key then [v] else header_values h k)"
  by (simp add: Header_Set_def header_values_update)

lemma header_values_Del:
  "header_values (Header_Del h key) k =
     (if k = CanonicalMIMEHeaderKey key then [] else header_values h k)"
  by (simp add: Header_Del_def header_values_delete)

lemma map_of_Del: "map_of (Header_Del h key) (CanonicalMIMEHeaderKey key) = None"
  by (simp add: Header_Del_def delete_conv')

lemma Request_Cookie_no_header:
  "header_values (Header r) ''Cookie'' = [] \<Longrightarrow> Request_Cookie lib r name = Inl ErrNoCookie"
  by (simp add: Request_Cookie_def readCookies_def)

lemma ModifyHeader_absent:
  "Request_Cookie lib r (authCookieName self) = Inl e \<Longrightarrow>
   ModifyHeader lib self r lg = (None, r, Logger_Debug lg ''Missing authorization cookie'')"
  by (simp add: ModifyHeader_def)

lemma ModifyHeader_present:
  "Request_Cookie lib r (authCookieName self) = Inr c \<Longrightarrow>
   ModifyHeader lib self r lg =
     (None, r\<lparr>Header := Header_Del (Header_Add (Header r) ''Authorization'' (Value c)) ''Cookie''\<rparr>, lg)"
  by (simp add: ModifyHeader_def)

lemma ModifyHeader_fixpoint:
  "fst (snd (ModifyHeader lib self (fst (snd (ModifyHeader lib self r lg))) lg')) =
   fst (snd (ModifyHeader lib self r lg))"
proof (cases "Request_Cookie lib r (authCookieName self)")
  case (Inl e)
  then show ?thesis by (simp add: ModifyHeader_absent)
next
  case (Inr c)
  let ?r1 = "r\<lparr>Header := Header_Del (Header_Add (Header r) ''Authorization'' (Value c)) ''Cookie''\<rparr>"
  have "header_values (Header ?r1) ''Cookie'' = []"
    by (simp add: header_values_Del canonical_Cookie)
  then have "Request_Cookie lib ?r1 (authCookieName self) = Inl ErrNoCookie"
    by (rule Request_Cookie_no_header)
  then have "ModifyHeader lib self ?r1 lg' = (None, ?r1, Logger_Debug lg' ''Missing authorization cookie'')"
    by (rule ModifyHeader_absent)
  then show ?thesis using Inr by (simp add: ModifyHeader_present)
qed

section \<open>Properties of the auth server\<close>

lemma wrote_NewResponseWriter: "wrote NewResponseWriter = None"
  by (simp add: NewResponseWriter_def)

lemma w_header_NewResponseWriter: "w_header NewResponseWriter = []"
  by (simp add: NewResponseWriter_def)

lemma Request_Cookie_reqAuthCookie:
  "Request_Cookie lib0 reqAuthCookie (authCookieName auth0) = Inr authCookie0"
  by code_simp

text \<open>
  Claim C9. \<open>ModifyHeader\<close> returns nil for every request. With the session cookie
  present, the request it leaves has the cookie's value added as the last
  \<open>Authorization\<close> value and no \<open>Cookie\<close> entry; without it, the request is
  unchanged. In the loop of \<open>NewRequest\<close>, the modifiers after it always run.
\<close>

theorem C9_ModifyHeader_returns_nil:
  "fst (ModifyHeader lib self r lg) = None
   \<and> (\<forall>c. Request_Cookie lib r (authCookieName self) = Inr c \<longrightarrow>
          fst (snd (ModifyHeader lib self r lg)) =
            r\<lparr>Header := Header_Del (Header_Add (Header r) ''Authorization'' (Value c)) ''Cookie''\<rparr>
        \<and> header_values (Header (fst (snd (ModifyHeader lib self r lg)))) ''Authorization'' =
            header_values (Header r) ''Authorization'' @ [Value c]
        \<and> map_of (Header (fst (snd (ModifyHeader lib self r lg)))) ''Cookie'' = None)
   \<and> (\<forall>e. Request_Cookie lib r (authCookieName self) = Inl e \<longrightarrow>
          fst (snd (ModifyHeader lib self r lg)) = r)
   \<and> runModifiers (ModifyHeader lib self # ms) r lg =
       runModifiers ms (fst (snd (ModifyHeader lib self r lg)))
         (snd (snd (ModifyHeader lib self r lg)))"
proof (cases "Request_Cookie lib r (authCookieName self)")
  case (Inl e)
  then show ?thesis by (simp add: ModifyHeader_absent)
next
  case (Inr c)
  have "map_of (Header_Del (Header_Add (Header r) ''Authorization'' (Value c)) ''Cookie'') ''Cookie'' = None"
    using map_of_Del [of _ "''Cookie''"] by (simp add: canonical_Cookie)
  then show ?thesis
    using Inr
    by (simp add: ModifyHeader_present header_values_Del header_values_Add
        canonical_Cookie canonical_Authorization)
qed

lemma Request_Cookie_reqOtherCookie:
  "Request_Cookie lib0 reqOtherCookie (authCookieName auth0) = Inl ErrNoCookie"
  by code_simp

text \<open>
  A request with the session cookie and one without it, through the example auth
  server.
\<close>

theorem C9_witness:
  "Request_Cookie lib0 reqAuthCookie (authCookieName auth0) = Inr authCookie0
   \<and> fst (ModifyHeader lib0 auth0 reqAuthCookie []) = None
   \<and> header_values (Header (fst (snd (ModifyHeader lib0 auth0 reqAuthCookie []))))
        ''Authorization'' = [''Bearer tok123'']
   \<and> map_of (Header (fst (snd (ModifyHeader lib0 auth0 reqAuthCookie [])))) ''Cookie'' = None
   \<and> Request_Cookie lib0 reqOtherCookie (authCookieName auth0) = Inl ErrNoCookie
   \<and> fst (ModifyHeader lib0 auth0 reqOtherCookie []) = None
   \<and> fst (snd (ModifyHeader lib0 auth0 reqOtherCookie [])) = reqOtherCookie"
proof -
  have a: "header_values (Header reqAuthCookie) ''Authorization'' = []"
    by code_simp
  have v: "Value authCookie0 = ''Bearer tok123''"
    by (simp add: authCookie0_def)
  have p: "fst (ModifyHeader lib0 auth0 reqAuthCookie []) = None
      \<and> header_values (Header (fst (snd (ModifyHeader lib0 auth0 reqAuthCookie []))))
           ''Authorization'' = header_values (Header reqAuthCookie) ''Authorization'' @ [Value authCookie0]
      \<and> map_of (Header (fst (snd (ModifyHeader lib0 auth0 reqAuthCookie [])))) ''Cookie'' = None"
    using C9_ModifyHeader_returns_nil [of lib0 auth0 reqAuthCookie "[]" "[]"]
      Request_Cookie_reqAuthCookie
    by blast
  have q: "fst (ModifyHeader lib0 auth0 reqOtherCookie []) = None
      \<and> fst (snd (ModifyHeader lib0 auth0 reqOtherCookie [])) = reqOtherCookie"
    using C9_ModifyHeader_returns_nil [of lib0 auth0 reqOtherCookie "[]" "[]"]
      Request_Cookie_reqOtherCookie
    by blast
  show ?thesis
    using p q Request_Cookie_reqAuthCookie Request_Cookie_reqOtherCookie a v by simp
qed

text \<open>
  Claim C4, as amended. Applying \<open>ModifyHeader\<close> to the request it has left gives
  that request again, so the \<open>Authorization\<close> header after two applications is the
  one after the first. When the session cookie is present, the request carries no
  \<open>Cookie\<close> header after the application; when it is absent, the request is left as
  it was, with any \<open>Cookie\<close> header it has.
\<close>

theorem C4_ModifyHeader_idempotent:
  "fst (snd (ModifyHeader lib self (fst (snd (ModifyHeader lib self r lg))) lg')) =
     fst (snd (ModifyHeader lib self r lg))
   \<and> header_values
        (Header (fst (snd (ModifyHeader lib self (fst (snd (ModifyHeader lib self r lg))) lg'))))
        ''Authorization'' =
      header_values (Header (fst (snd (ModifyHeader lib self r lg)))) ''Authorization''
   \<and> (\<forall>c. Request_Cookie lib r (authCookieName self) = Inr c \<longrightarrow>
          map_of (Header (fst (snd (ModifyHeader lib self r lg)))) ''Cookie'' = None)
   \<and> (\<forall>e. Request_Cookie lib r (authCookieName self) = Inl e \<longrightarrow>
          fst (snd (ModifyHeader lib self r lg)) = r)"
proof (intro conjI allI impI)
  show "fst (snd (ModifyHeader lib self (fst (snd (ModifyHeader lib self r lg))) lg')) =
     fst (snd (ModifyHeader lib self r lg))"
    by (rule ModifyHeader_fixpoint)
  then show "header_values
        (Header (fst (snd (ModifyHeader lib self (fst (snd (ModifyHeader lib self r lg))) lg'))))
        ''Authorization'' =
      header_values (Header (fst (snd (ModifyHeader lib self r lg)))) ''Authorization''"
    by simp
next
  fix c assume "Request_Cookie lib r (authCookieName self) = Inr c"
  then show "map_of (Header (fst (snd (ModifyHeader lib self r lg)))) ''Cookie'' = None"
    using map_of_Del [of _ "''Cookie''"] by (simp add: ModifyHeader_present canonical_Cookie)
next
  fix e assume "Request_Cookie lib r (authCookieName self) = Inl e"
  then show "fst (snd (ModifyHeader lib self r lg)) = r"
    by (simp add: ModifyHeader_absent)
qed

text \<open>The same two requests: the first loses its \<open>Cookie\<close> header, the second is unchanged.\<close>

theorem C4_witness:
  "Request_Cookie lib0 reqAuthCookie (authCookieName auth0) = Inr authCookie0
   \<and> map_of (Header (fst (snd (ModifyHeader lib0 auth0 reqAuthCookie [])))) ''Cookie'' = None
   \<and> fst (snd (ModifyHeader lib0 auth0 (fst (snd (ModifyHeader lib0 auth0 reqAuthCookie []))) []))
       = fst (snd (ModifyHeader lib0 auth0 reqAuthCookie []))
   \<and> Request_Cookie lib0 reqOtherCookie (authCookieName auth0) = Inl ErrNoCookie
   \<and> fst (snd (ModifyHeader lib0 auth0 reqOtherCookie [])) = reqOtherCookie"
  using C4_ModifyHeader_idempotent [of lib0 auth0 reqAuthCookie "[]" "[]"]
    C4_ModifyHeader_idempotent [of lib0 auth0 reqOtherCookie "[]" "[]"]
    Request_Cookie_reqAuthCookie Request_Cookie_reqOtherCookie
  by blast

text \<open>
  The claim as stated fails: a request with a \<open>Cookie\<close> header that holds no
  session cookie keeps the header.
\<close>

theorem C4_counterexample:
  "Request_Cookie lib0 reqOtherCookie (authCookieName auth0) = Inl ErrNoCookie
   \<and> header_values (Header (fst (snd (ModifyHeader lib0 auth0 reqOtherCookie [])))) ''Cookie''
       = [''theme=dark'']"
  by code_simp

lemma WriteHeader_final:
  "wrote w = None \<Longrightarrow> 200 \<le> code \<or> code = 101 \<Longrightarrow> code \<le> 999
   \<Longrightarrow> WriteHeader w code = w\<lparr>wrote := Some (code, w_header w)\<rparr>"
  by (auto simp add: WriteHeader_def checkWriteHeaderCode_def)

lemma WriteHeader_written: "wrote w = Some x \<Longrightarrow> WriteHeader w code = w"
  by (simp add: WriteHeader_def)

lemma w_header_WriteHeader: "w_header (WriteHeader w code) = w_header w"
  by (simp add: WriteHeader_def split: option.splits)

lemma w_header_reject: "w_header (fst (reject w lg err)) = w_header w"
  by (simp add: reject_def w_header_WriteHeader)

lemma status_reject:
  "wrote w = None \<Longrightarrow> status (fst (reject w lg err)) = Some StatusBadRequest"
  by (simp add: reject_def WriteHeader_final StatusBadRequest_def status_def)

lemma sent_header_reject:
  "wrote w = None \<Longrightarrow> sent_header (fst (reject w lg err)) = w_header w"
  by (simp add: reject_def WriteHeader_final StatusBadRequest_def sent_header_def)

lemma snd_reject: "snd (reject w lg err) = lg @ [LogError (Error err)]"
  by (simp add: reject_def Logger_Error_def)

lemma decodeState_iff:
  "decodeState lib self r = Inr st \<longleftrightarrow>
     (\<exists>c. Request_Cookie lib r (stateCookieName self) = Inr c
          \<and> Value c = FormValue r ''state'' \<and> decode lib (Value c) = Inr st)"
  by (auto simp add: decodeState_def split: sum.splits)

lemma decodeState_missing:
  "Request_Cookie lib r (stateCookieName self) = Inl e \<Longrightarrow> decodeState lib self r = Inl e"
  by (simp add: decodeState_def)

lemma decodeState_mismatch:
  "Request_Cookie lib r (stateCookieName self) = Inr c \<Longrightarrow> Value c \<noteq> FormValue r ''state''
   \<Longrightarrow> decodeState lib self r = Inl (ErrorString ''Invalid state'')"
  by (simp add: decodeState_def)

lemma Callback_decodeState_fails:
  "decodeState lib self r = Inl e \<Longrightarrow>
   Callback lib self w lg r = reject w lg (case checkError r of Some e' \<Rightarrow> e' | None \<Rightarrow> e)"
  by (simp add: Callback_def split: option.splits)

lemma Callback_host:
  "decodeState lib self r = Inr st \<Longrightarrow> url_Parse lib (RedirectUri st) = Inr u \<Longrightarrow> Host u \<noteq> []
   \<Longrightarrow> Callback lib self w lg r =
         reject w lg (case checkError r of Some e' \<Rightarrow> e' | None \<Rightarrow> ErrorString ''Invalid redirect'')"
  by (simp add: Callback_def split: option.splits)

lemma Callback_fails:
  assumes "checkError r \<noteq> None
     \<or> (\<exists>e. decodeState lib self r = Inl e)
     \<or> (\<exists>st. decodeState lib self r = Inr st
           \<and> ((\<exists>e. url_Parse lib (RedirectUri st) = Inl e)
              \<or> (\<exists>u. url_Parse lib (RedirectUri st) = Inr u \<and> Host u \<noteq> [])))
     \<or> (\<exists>e. Exchange lib (Config self) (FormValue r ''code'') = Inl e)"
  shows "\<exists>err. Callback lib self w lg r = reject w lg err"
  using assms
  by (auto simp add: Callback_def split: option.splits sum.splits)

lemma Callback_succeeds:
  assumes "checkError r = None" and "decodeState lib self r = Inr st"
    and "url_Parse lib (RedirectUri st) = Inr u" and "Host u = []"
    and "Exchange lib (Config self) (FormValue r ''code'') = Inr token"
  shows "Callback lib self w lg r =
     (http_Redirect lib
        (http_SetCookie lib
           (http_SetCookie lib w
              \<lparr>Name = authCookieName self, Value = TokenType token @ '' '' @ AccessToken token,
               CookiePath = ''/'', Expires = Expiry token, MaxAge = 0, HttpOnly = True\<rparr>)
           \<lparr>Name = stateCookieName self, Value = [], CookiePath = ''/'', Expires = 0,
            MaxAge = - 1, HttpOnly = False\<rparr>)
        r (URL_String lib u) StatusTemporaryRedirect, lg)"
  using assms by (simp add: Callback_def)

lemma Logout_host:
  "url_Parse lib (if FormValue r ''redirect_uri'' = [] then ''/'' else FormValue r ''redirect_uri'') = Inr u
   \<Longrightarrow> Host u \<noteq> []
   \<Longrightarrow> Logout lib self w lg r = reject w lg (ErrorString ''Invalid redirect'')"
  by (simp add: Logout_def Let_def)

lemma status_http_Redirect:
  "wrote w = None \<Longrightarrow>
   status (http_Redirect lib w r url StatusTemporaryRedirect) = Some StatusTemporaryRedirect"
  by (simp add: http_Redirect_def WriteHeader_final StatusTemporaryRedirect_def status_def)

lemma sent_Location_http_Redirect:
  "wrote w = None \<Longrightarrow>
   header_values (sent_header (http_Redirect lib w r url StatusTemporaryRedirect)) ''Location''
     = [redirectLocation lib r url]"
  by (simp add: http_Redirect_def WriteHeader_final StatusTemporaryRedirect_def sent_header_def
      header_values_Set canonical_Location)

lemma wrote_http_SetCookie: "wrote (http_SetCookie lib w c) = wrote w"
  by (simp add: http_SetCookie_def Let_def)

lemma Login_encoded:
  "encodeState lib now r = Inr s \<Longrightarrow>
   Login lib self now now' w lg r =
     (http_Redirect lib
        (http_SetCookie lib w
           \<lparr>Name = stateCookieName self, Value = s, CookiePath = ''/'',
            Expires = now' + Hour, MaxAge = 0, HttpOnly = True\<rparr>)
        r (AuthCodeURL lib (Config self) s) StatusTemporaryRedirect, lg)"
  by (simp add: Login_def Let_def)

lemma decodeState_evil:
  "decodeState lib0 auth0 (reqCallback stateEvil stateEvil ''abc'') =
     Inr \<lparr>RedirectUri = ''http://evil.example/'', Timestamp = 1700000000\<rparr>"
  by code_simp

lemma decodeState_dashboard:
  "decodeState lib0 auth0 (reqCallback stateDashboard stateDashboard code) =
     Inr \<lparr>RedirectUri = ''/dashboard'', Timestamp = 1700000000\<rparr>"
  by code_simp

lemma url_Parse0_evil: "url_Parse lib0 ''http://evil.example/'' = Inr urlEvil"
  by code_simp

lemma Host_urlEvil: "Host urlEvil \<noteq> []"
  by (simp add: urlEvil_def)

text \<open>
  Claim C1, as amended. On a writer that has sent nothing yet: when the decoded state
  token carries a redirect target whose parsed URL has a host, \<open>Callback\<close> replies 400
  and leaves the header map as it was (no \<open>Location\<close>, no cookie); when the
  \<open>redirect_uri\<close> form value parses to a URL with a host, \<open>Logout\<close> does the same
  and logs \<open>Invalid redirect\<close>. \<open>Login\<close> does not parse its \<open>redirect_uri\<close>:
  whenever the state encodes, it replies 307 with the provider's authorization URL as
  the location, whatever the target is; the target is checked by \<open>Callback\<close>.
\<close>

theorem C1_callback_and_logout_reject_hosts:
  assumes "wrote w = None"
  shows
    "(\<forall>st u. decodeState lib self r = Inr st \<and> url_Parse lib (RedirectUri st) = Inr u \<and> Host u \<noteq> []
        \<longrightarrow> status (fst (Callback lib self w lg r)) = Some StatusBadRequest
          \<and> w_header (fst (Callback lib self w lg r)) = w_header w
          \<and> sent_header (fst (Callback lib self w lg r)) = w_header w)
   \<and> (\<forall>u. url_Parse lib (if FormValue r ''redirect_uri'' = [] then ''/''
                           else FormValue r ''redirect_uri'') = Inr u \<and> Host u \<noteq> []
        \<longrightarrow> status (fst (Logout lib self w lg r)) = Some StatusBadRequest
          \<and> w_header (fst (Logout lib self w lg r)) = w_header w
          \<and> sent_header (fst (Logout lib self w lg r)) = w_header w
          \<and> snd (Logout lib self w lg r) = lg @ [LogError ''Invalid redirect''])
   \<and> (\<forall>s. encodeState lib now r = Inr s
        \<longrightarrow> status (fst (Login lib self now now' w lg r)) = Some StatusTemporaryRedirect
          \<and> header_values (sent_header (fst (Login lib self now now' w lg r))) ''Location''
              = [redirectLocation lib r (AuthCodeURL lib (Config self) s)])"
proof (intro conjI allI impI)
  fix st u
  assume h: "decodeState lib self r = Inr st \<and> url_Parse lib (RedirectUri st) = Inr u \<and> Host u \<noteq> []"
  then have c: "Callback lib self w lg r =
         reject w lg (case checkError r of Some e' \<Rightarrow> e' | None \<Rightarrow> ErrorString ''Invalid redirect'')"
    using Callback_host by blast
  show "status (fst (Callback lib self w lg r)) = Some StatusBadRequest"
    using c assms by (simp add: status_reject)
  show "w_header (fst (Callback lib self w lg r)) = w_header w"
    using c by (simp add: w_header_reject)
  show "sent_header (fst (Callback lib self w lg r)) = w_header w"
    using c assms by (simp add: sent_header_reject)
next
  fix u
  assume h: "url_Parse lib (if FormValue r ''redirect_uri'' = [] then ''/''
                           else FormValue r ''redirect_uri'') = Inr u \<and> Host u \<noteq> []"
  then have c: "Logout lib self w lg r = reject w lg (ErrorString ''Invalid redirect'')"
    using Logout_host by blast
  show "status (fst (Logout lib self w lg r)) = Some StatusBadRequest"
    using c assms by (simp add: status_reject)
  show "w_header (fst (Logout lib self w lg r)) = w_header w"
    using c by (simp add: w_header_reject)
  show "sent_header (fst (Logout lib self w lg r)) = w_header w"
    using c assms by (simp add: sent_header_reject)
  show "snd (Logout lib self w lg r) = lg @ [LogError ''Invalid redirect'']"
    using c by (simp add: snd_reject)
next
  fix s
  assume h: "encodeState lib now r = Inr s"
  show "status (fst (Login lib self now now' w lg r)) = Some StatusTemporaryRedirect"
    using assms by (simp add: Login_encoded [OF h] status_http_Redirect wrote_http_SetCookie)
  show "header_values (sent_header (fst (Login lib self now now' w lg r))) ''Location''
              = [redirectLocation lib r (AuthCodeURL lib (Config self) s)]"
    using assms by (simp add: Login_encoded [OF h] sent_Location_http_Redirect wrote_http_SetCookie)
qed

lemma encodeState_reqLoginEvil: "encodeState lib0 now0 reqLoginEvil = Inr stateEvil"
  by code_simp

text \<open>
  A callback whose state token carries \<open>http://evil.example/\<close>, a logout and a login
  with that \<open>redirect_uri\<close>.
\<close>

theorem C1_witness:
  "decodeState lib0 auth0 (reqCallback stateEvil stateEvil ''abc'') =
     Inr \<lparr>RedirectUri = ''http://evil.example/'', Timestamp = 1700000000\<rparr>
   \<and> url_Parse lib0 ''http://evil.example/'' = Inr urlEvil
   \<and> Host urlEvil \<noteq> []
   \<and> status (fst (Callback lib0 auth0 NewResponseWriter []
        (reqCallback stateEvil stateEvil ''abc''))) = Some 400
   \<and> w_header (fst (Callback lib0 auth0 NewResponseWriter []
        (reqCallback stateEvil stateEvil ''abc''))) = []
   \<and> status (fst (Logout lib0 auth0 NewResponseWriter [] reqLogoutEvil)) = Some 400
   \<and> w_header (fst (Logout lib0 auth0 NewResponseWriter [] reqLogoutEvil)) = []
   \<and> encodeState lib0 now0 reqLoginEvil = Inr stateEvil
   \<and> status (fst (Login lib0 auth0 now0 now0 NewResponseWriter [] reqLoginEvil)) = Some 307"
proof -
  have lo: "url_Parse lib0 (if FormValue reqLogoutEvil ''redirect_uri'' = [] then ''/''
              else FormValue reqLogoutEvil ''redirect_uri'') = Inr urlEvil"
    by code_simp
  have cb: "status (fst (Callback lib0 auth0 NewResponseWriter []
        (reqCallback stateEvil stateEvil ''abc''))) = Some StatusBadRequest
     \<and> w_header (fst (Callback lib0 auth0 NewResponseWriter []
        (reqCallback stateEvil stateEvil ''abc''))) = w_header NewResponseWriter"
    using C1_callback_and_logout_reject_hosts [OF wrote_NewResponseWriter,
        where lib = lib0 and self = auth0 and r = "reqCallback stateEvil stateEvil ''abc''"
          and lg = "[]"]
      decodeState_evil url_Parse0_evil Host_urlEvil
    by simp
  have lg: "status (fst (Logout lib0 auth0 NewResponseWriter [] reqLogoutEvil)) = Some StatusBadRequest
     \<and> w_header (fst (Logout lib0 auth0 NewResponseWriter [] reqLogoutEvil)) = w_header NewResponseWriter"
    using C1_callback_and_logout_reject_hosts [OF wrote_NewResponseWriter,
        where lib = lib0 and self = auth0 and r = reqLogoutEvil and lg = "[]"]
      lo Host_urlEvil
    by simp
  have li: "status (fst (Login lib0 auth0 now0 now0 NewResponseWriter [] reqLoginEvil))
              = Some StatusTemporaryRedirect"
    using C1_callback_and_logout_reject_hosts [OF wrote_NewResponseWriter,
        where lib = lib0 and self = auth0 and r = reqLoginEvil and lg = "[]" and now = now0
          and now' = now0]
      encodeState_reqLoginEvil
    by simp
  show ?thesis
    using cb lg li decodeState_evil url_Parse0_evil Host_urlEvil encodeState_reqLoginEvil
    by (simp add: StatusBadRequest_def StatusTemporaryRedirect_def w_header_NewResponseWriter)
qed

text \<open>
  The claim as stated fails for \<open>Login\<close>: a login with
  \<open>redirect_uri=http://evil.example/\<close>, whose parsed URL has the host
  \<open>evil.example\<close>, is answered with the redirect (307) to the provider, not with 400.
\<close>

theorem C1_counterexample:
  "url_Parse lib0 (FormValue reqLoginEvil ''redirect_uri'') = Inr urlEvil
   \<and> Host urlEvil = ''evil.example''
   \<and> status (fst (Login lib0 auth0 now0 now0 NewResponseWriter [] reqLoginEvil)) = Some 307"
  by code_simp

lemma Callback_proceeds:
  "checkError r = None \<Longrightarrow> decodeState lib self r = Inr st
   \<Longrightarrow> Callback lib self w lg r = afterStateValidation lib self w lg r st"
  by (simp add: Callback_def afterStateValidation_def)

lemma Callback_checkError:
  "checkError r = Some e \<Longrightarrow> Callback lib self w lg r = reject w lg e"
  by (simp add: Callback_def)

text \<open>
  Claim C2, as amended. For a callback request without an \<open>error\<close> parameter:
  when the state cookie is present, its value is byte-equal to the \<open>state\<close>
  parameter and the value decodes (base64, then JSON) to a state, \<open>Callback\<close>
  proceeds past state validation with that state; and state validation returns a
  state with which \<open>Callback\<close> proceeds only in that case. State validation
  (\<open>decodeState\<close>) by itself succeeds with a state exactly when the cookie is
  present, equal to the parameter and decodes to that state. When the cookie is missing
  or its value differs from the parameter, \<open>Callback\<close> rejects the request: status
  400 on a writer that has sent nothing, the header map unchanged; with no \<open>error\<close>
  parameter, the error \<open>Callback\<close> logs is the one state validation returned. A
  request with an \<open>error\<close> parameter is rejected with that error before state
  validation, whatever its state.
\<close>

theorem C2_state_must_equal_cookie:
  "(\<forall>c st. checkError r = None
        \<and> Request_Cookie lib r (stateCookieName self) = Inr c
        \<and> Value c = FormValue r ''state'' \<and> decode lib (Value c) = Inr st
      \<longrightarrow> Callback lib self w lg r = afterStateValidation lib self w lg r st)
   \<and> (checkError r = None \<longrightarrow>
        ((\<exists>st. decodeState lib self r = Inr st
              \<and> Callback lib self w lg r = afterStateValidation lib self w lg r st)
         \<longleftrightarrow> (\<exists>c st. Request_Cookie lib r (stateCookieName self) = Inr c
                    \<and> Value c = FormValue r ''state'' \<and> decode lib (Value c) = Inr st)))
   \<and> (decodeState lib self r = Inr st \<longleftrightarrow>
        (\<exists>c. Request_Cookie lib r (stateCookieName self) = Inr c
             \<and> Value c = FormValue r ''state'' \<and> decode lib (Value c) = Inr st))
   \<and> ((\<exists>e. Request_Cookie lib r (stateCookieName self) = Inl e)
        \<or> (\<exists>c. Request_Cookie lib r (stateCookieName self) = Inr c
                \<and> Value c \<noteq> FormValue r ''state'')
      \<longrightarrow> (\<exists>err. Callback lib self w lg r = reject w lg err)
        \<and> w_header (fst (Callback lib self w lg r)) = w_header w
        \<and> (wrote w = None \<longrightarrow> status (fst (Callback lib self w lg r)) = Some StatusBadRequest))
   \<and> (\<forall>e. checkError r = None \<and> decodeState lib self r = Inl e
        \<longrightarrow> Callback lib self w lg r = reject w lg e)
   \<and> (\<forall>e. checkError r = Some e \<longrightarrow> Callback lib self w lg r = reject w lg e)"
proof (intro conjI impI allI)
  fix c st
  assume h: "checkError r = None
        \<and> Request_Cookie lib r (stateCookieName self) = Inr c
        \<and> Value c = FormValue r ''state'' \<and> decode lib (Value c) = Inr st"
  then have "decodeState lib self r = Inr st"
    using decodeState_iff by blast
  then show "Callback lib self w lg r = afterStateValidation lib self w lg r st"
    using h by (simp add: Callback_proceeds)
next
  assume k: "checkError r = None"
  show "(\<exists>st. decodeState lib self r = Inr st
              \<and> Callback lib self w lg r = afterStateValidation lib self w lg r st)
         \<longleftrightarrow> (\<exists>c st. Request_Cookie lib r (stateCookieName self) = Inr c
                    \<and> Value c = FormValue r ''state'' \<and> decode lib (Value c) = Inr st)"
    using k decodeState_iff [of lib self r] Callback_proceeds [of r lib self _ w lg]
    by blast
next
  show "decodeState lib self r = Inr st \<longleftrightarrow>
      (\<exists>c. Request_Cookie lib r (stateCookieName self) = Inr c
           \<and> Value c = FormValue r ''state'' \<and> decode lib (Value c) = Inr st)"
    by (rule decodeState_iff)
next
  assume "(\<exists>e. Request_Cookie lib r (stateCookieName self) = Inl e)
        \<or> (\<exists>c. Request_Cookie lib r (stateCookieName self) = Inr c
                \<and> Value c \<noteq> FormValue r ''state'')"
  then have "\<exists>e. decodeState lib self r = Inl e"
    using decodeState_missing decodeState_mismatch by blast
  then obtain e where e: "decodeState lib self r = Inl e" ..
  have c: "Callback lib self w lg r = reject w lg (case checkError r of Some e' \<Rightarrow> e' | None \<Rightarrow> e)"
    using e by (rule Callback_decodeState_fails)
  show "\<exists>err. Callback lib self w lg r = reject w lg err"
    using c by blast
  show "w_header (fst (Callback lib self w lg r)) = w_header w"
    using c by (simp add: w_header_reject)
  show "status (fst (Callback lib self w lg r)) = Some StatusBadRequest" if "wrote w = None"
    using c that by (simp add: status_reject)
next
  fix e
  assume "checkError r = None \<and> decodeState lib self r = Inl e"
  then show "Callback lib self w lg r = reject w lg e"
    using Callback_decodeState_fails [of lib self r e w lg] by simp
next
  fix e
  assume "checkError r = Some e"
  then show "Callback lib self w lg r = reject w lg e"
    by (rule Callback_checkError)
qed

lemma decodeState_forged:
  "decodeState lib0 auth0 (reqCallback stateDashboard stateEvil ''abc'')
     = Inl (ErrorString ''Invalid state'')"
  by code_simp

text \<open>
  A callback with the cookie's own value as \<open>state\<close> proceeds and is redirected to
  the target of the state; one whose \<open>state\<close> parameter differs from the cookie is
  rejected as \<open>Invalid state\<close>; one with an \<open>error\<close> parameter is rejected with
  the error of the identity provider.
\<close>

theorem C2_witness:
  "checkError (reqCallback stateDashboard stateDashboard ''abc'') = None
   \<and> Request_Cookie lib0 (reqCallback stateDashboard stateDashboard ''abc'')
        (stateCookieName auth0) = Inr stateCookie0
   \<and> Value stateCookie0 = FormValue (reqCallback stateDashboard stateDashboard ''abc'') ''state''
   \<and> decode lib0 (Value stateCookie0)
        = Inr \<lparr>RedirectUri = ''/dashboard'', Timestamp = 1700000000\<rparr>
   \<and> status (fst (Callback lib0 auth0 NewResponseWriter []
        (reqCallback stateDashboard stateDashboard ''abc''))) = Some 307
   \<and> header_values (sent_header (fst (Callback lib0 auth0 NewResponseWriter []
        (reqCallback stateDashboard stateDashboard ''abc'')))) ''Location'' = [''/dashboard'']
   \<and> Request_Cookie lib0 (reqCallback stateDashboard stateEvil ''abc'') (stateCookieName auth0)
        = Inr stateCookie0
   \<and> Value stateCookie0 \<noteq> FormValue (reqCallback stateDashboard stateEvil ''abc'') ''state''
   \<and> status (fst (Callback lib0 auth0 NewResponseWriter []
        (reqCallback stateDashboard stateEvil ''abc''))) = Some 400
   \<and> checkError (reqCallback stateDashboard stateEvil ''abc'') = None
   \<and> snd (Callback lib0 auth0 NewResponseWriter []
        (reqCallback stateDashboard stateEvil ''abc'')) = [LogError ''Invalid state'']
   \<and> checkError reqCallbackDenied = Some (ErrorString ''access_denied : denied'')
   \<and> snd (Callback lib0 auth0 NewResponseWriter [] reqCallbackDenied)
        = [LogError ''access_denied : denied'']"
proof -
  let ?good = "reqCallback stateDashboard stateDashboard ''abc''"
  let ?bad = "reqCallback stateDashboard stateEvil ''abc''"
  let ?st = "\<lparr>RedirectUri = ''/dashboard'', Timestamp = 1700000000\<rparr>"
  have g: "checkError ?good = None
      \<and> Request_Cookie lib0 ?good (stateCookieName auth0) = Inr stateCookie0
      \<and> Value stateCookie0 = FormValue ?good ''state''
      \<and> decode lib0 (Value stateCookie0) = Inr ?st"
    by code_simp
  have a: "status (fst (afterStateValidation lib0 auth0 NewResponseWriter [] ?good ?st)) = Some 307
      \<and> header_values (sent_header (fst (afterStateValidation lib0 auth0 NewResponseWriter []
           ?good ?st))) ''Location'' = [''/dashboard'']"
    by code_simp
  have c: "Request_Cookie lib0 ?bad (stateCookieName auth0) = Inr stateCookie0"
    by code_simp
  have n: "Value stateCookie0 \<noteq> FormValue ?bad ''state''"
    by code_simp
  have k: "checkError ?bad = None"
    by code_simp
  have d: "checkError reqCallbackDenied = Some (ErrorString ''access_denied : denied'')"
    by code_simp
  note good = C2_state_must_equal_cookie
      [where lib = lib0 and self = auth0 and r = ?good and w = NewResponseWriter and lg = "[]"]
  note bad = C2_state_must_equal_cookie
      [where lib = lib0 and self = auth0 and r = ?bad and w = NewResponseWriter and lg = "[]"]
  note denied = C2_state_must_equal_cookie
      [where lib = lib0 and self = auth0 and r = reqCallbackDenied and w = NewResponseWriter
         and lg = "[]"]
  note proceeds = good [THEN conjunct1, THEN spec, THEN spec, THEN mp, OF g]
  have p: "status (fst (Callback lib0 auth0 NewResponseWriter [] ?good)) = Some 307
      \<and> header_values (sent_header (fst (Callback lib0 auth0 NewResponseWriter [] ?good)))
           ''Location'' = [''/dashboard'']"
    unfolding proceeds by (rule a)
  have cn: "(\<exists>e. Request_Cookie lib0 ?bad (stateCookieName auth0) = Inl e)
        \<or> (\<exists>c. Request_Cookie lib0 ?bad (stateCookieName auth0) = Inr c
                \<and> Value c \<noteq> FormValue ?bad ''state'')"
    using c n by blast
  note rejected = bad [THEN conjunct2, THEN conjunct2, THEN conjunct2, THEN conjunct1,
      THEN mp, OF cn]
  have s: "status (fst (Callback lib0 auth0 NewResponseWriter [] ?bad)) = Some 400"
    using rejected [THEN conjunct2, THEN conjunct2, THEN mp, OF wrote_NewResponseWriter]
    by (simp add: StatusBadRequest_def)
  have kf: "checkError ?bad = None
      \<and> decodeState lib0 auth0 ?bad = Inl (ErrorString ''Invalid state'')"
    using k decodeState_forged by simp
  note logged = bad [THEN conjunct2, THEN conjunct2, THEN conjunct2, THEN conjunct2,
      THEN conjunct1, THEN spec, THEN mp, OF kf]
  have l: "snd (Callback lib0 auth0 NewResponseWriter [] ?bad) = [LogError ''Invalid state'']"
    unfolding logged by (simp add: snd_reject)
  note refused = denied [THEN conjunct2, THEN conjunct2, THEN conjunct2, THEN conjunct2,
      THEN conjunct2, THEN spec, THEN mp, OF d]
  have r: "snd (Callback lib0 auth0 NewResponseWriter [] reqCallbackDenied)
      = [LogError ''access_denied : denied'']"
    unfolding refused by (simp add: snd_reject)
  show ?thesis
    using g [THEN conjunct1] g [THEN conjunct2, THEN conjunct1]
      g [THEN conjunct2, THEN conjunct2, THEN conjunct1]
      g [THEN conjunct2, THEN conjunct2, THEN conjunct2]
      p [THEN conjunct1] p [THEN conjunct2] c n s k l d r
    by - (intro conjI; assumption)
qed

text \<open>
  The claim as stated fails for a request with an \<open>error\<close> parameter: the
  \<open>state\<close> parameter equals the state cookie and the cookie decodes, so state
  validation would succeed and the continuation would redirect, but \<open>Callback\<close>
  replies 400 with the error of the identity provider.
\<close>

theorem C2_counterexample:
  "Request_Cookie lib0 reqCallbackDenied (stateCookieName auth0) = Inr stateCookie0
   \<and> Value stateCookie0 = FormValue reqCallbackDenied ''state''
   \<and> decode lib0 (Value stateCookie0)
        = Inr \<lparr>RedirectUri = ''/dashboard'', Timestamp = 1700000000\<rparr>
   \<and> decodeState lib0 auth0 reqCallbackDenied
        = Inr \<lparr>RedirectUri = ''/dashboard'', Timestamp = 1700000000\<rparr>
   \<and> status (fst (Callback lib0 auth0 NewResponseWriter [] reqCallbackDenied)) = Some 400
   \<and> snd (Callback lib0 auth0 NewResponseWriter [] reqCallbackDenied)
        = [LogError ''access_denied : denied'']
   \<and> status (fst (afterStateValidation lib0 auth0 NewResponseWriter [] reqCallbackDenied
        \<lparr>RedirectUri = ''/dashboard'', Timestamp = 1700000000\<rparr>)) = Some 307
   \<and> Callback lib0 auth0 NewResponseWriter [] reqCallbackDenied
        \<noteq> afterStateValidation lib0 auth0 NewResponseWriter [] reqCallbackDenied
            \<lparr>RedirectUri = ''/dashboard'', Timestamp = 1700000000\<rparr>"
  by code_simp

text \<open>
  Claim C3. If a step of \<open>Callback\<close> fails (an \<open>error\<close> parameter is present,
  state validation fails, the redirect target does not parse or has a host, or the
  exchange of the code fails), \<open>Callback\<close> is the rejecting block: the header map of
  the writer, where \<open>http.SetCookie\<close> would add a cookie, is left as it was, and on a
  writer that has sent nothing the reply is 400 with the headers the writer had. The
  two cookies are set in the one remaining case, when every step has succeeded.
\<close>

theorem C3_callback_failure_sets_no_cookie:
  "(checkError r \<noteq> None
     \<or> (\<exists>e. decodeState lib self r = Inl e)
     \<or> (\<exists>st. decodeState lib self r = Inr st
           \<and> ((\<exists>e. url_Parse lib (RedirectUri st) = Inl e)
              \<or> (\<exists>u. url_Parse lib (RedirectUri st) = Inr u \<and> Host u \<noteq> [])))
     \<or> (\<exists>e. Exchange lib (Config self) (FormValue r ''code'') = Inl e)
    \<longrightarrow> (\<exists>err. Callback lib self w lg r = reject w lg err)
      \<and> w_header (fst (Callback lib self w lg r)) = w_header w
      \<and> (wrote w = None \<longrightarrow>
            status (fst (Callback lib self w lg r)) = Some StatusBadRequest
          \<and> sent_header (fst (Callback lib self w lg r)) = w_header w))
   \<and> (\<forall>st u token.
        checkError r = None \<and> decodeState lib self r = Inr st
        \<and> url_Parse lib (RedirectUri st) = Inr u \<and> Host u = []
        \<and> Exchange lib (Config self) (FormValue r ''code'') = Inr token
        \<longrightarrow> Callback lib self w lg r =
             (http_Redirect lib
                (http_SetCookie lib
                   (http_SetCookie lib w
                      \<lparr>Name = authCookieName self,
                       Value = TokenType token @ '' '' @ AccessToken token,
                       CookiePath = ''/'', Expires = Expiry token, MaxAge = 0,
                       HttpOnly = True\<rparr>)
                   \<lparr>Name = stateCookieName self, Value = [], CookiePath = ''/'', Expires = 0,
                    MaxAge = - 1, HttpOnly = False\<rparr>)
                r (URL_String lib u) StatusTemporaryRedirect, lg))"
proof (intro conjI impI allI)
  assume f: "checkError r \<noteq> None
     \<or> (\<exists>e. decodeState lib self r = Inl e)
     \<or> (\<exists>st. decodeState lib self r = Inr st
           \<and> ((\<exists>e. url_Parse lib (RedirectUri st) = Inl e)
              \<or> (\<exists>u. url_Parse lib (RedirectUri st) = Inr u \<and> Host u \<noteq> [])))
     \<or> (\<exists>e. Exchange lib (Config self) (FormValue r ''code'') = Inl e)"
  then obtain err where c: "Callback lib self w lg r = reject w lg err"
    using Callback_fails [of r lib self w lg] by blast
  show "\<exists>err. Callback lib self w lg r = reject w lg err"
    using c by blast
  show "w_header (fst (Callback lib self w lg r)) = w_header w"
    using c by (simp add: w_header_reject)
  show "status (fst (Callback lib self w lg r)) = Some StatusBadRequest" if "wrote w = None"
    using c that by (simp add: status_reject)
  show "sent_header (fst (Callback lib self w lg r)) = w_header w" if "wrote w = None"
    using c that by (simp add: sent_header_reject)
next
  fix st u token
  assume "checkError r = None \<and> decodeState lib self r = Inr st
        \<and> url_Parse lib (RedirectUri st) = Inr u \<and> Host u = []
        \<and> Exchange lib (Config self) (FormValue r ''code'') = Inr token"
  then show "Callback lib self w lg r =
             (http_Redirect lib
                (http_SetCookie lib
                   (http_SetCookie lib w
                      \<lparr>Name = authCookieName self,
                       Value = TokenType token @ '' '' @ AccessToken token,
                       CookiePath = ''/'', Expires = Expiry token, MaxAge = 0,
                       HttpOnly = True\<rparr>)
                   \<lparr>Name = stateCookieName self, Value = [], CookiePath = ''/'', Expires = 0,
                    MaxAge = - 1, HttpOnly = False\<rparr>)
                r (URL_String lib u) StatusTemporaryRedirect, lg)"
    using Callback_succeeds by blast
qed

lemma url_Parse0_dashboard: "url_Parse lib0 ''/dashboard'' = Inr (pathURL ''/dashboard'')"
  by code_simp

lemma Exchange0_abc:
  "Exchange lib0 (Config auth0)
     (FormValue (reqCallback stateDashboard stateDashboard ''abc'') ''code'') = Inr token0"
  by code_simp

text \<open>
  A callback whose code the provider refuses sets no header; the same callback with the
  code \<open>abc\<close> passes every step and sets both cookies.
\<close>

theorem C3_witness:
  "Exchange lib0 (Config auth0)
       (FormValue (reqCallback stateDashboard stateDashboard ''zzz'') ''code'')
     = Inl (LibError ''oauth2: cannot fetch token'')
   \<and> status (fst (Callback lib0 auth0 NewResponseWriter []
        (reqCallback stateDashboard stateDashboard ''zzz''))) = Some 400
   \<and> w_header (fst (Callback lib0 auth0 NewResponseWriter []
        (reqCallback stateDashboard stateDashboard ''zzz''))) = []
   \<and> checkError (reqCallback stateDashboard stateDashboard ''abc'') = None
   \<and> url_Parse lib0 ''/dashboard'' = Inr (pathURL ''/dashboard'')
   \<and> Host (pathURL ''/dashboard'') = []
   \<and> Exchange lib0 (Config auth0)
        (FormValue (reqCallback stateDashboard stateDashboard ''abc'') ''code'') = Inr token0
   \<and> status (fst (Callback lib0 auth0 NewResponseWriter []
        (reqCallback stateDashboard stateDashboard ''abc''))) = Some 307
   \<and> length (header_values (w_header (fst (Callback lib0 auth0 NewResponseWriter []
        (reqCallback stateDashboard stateDashboard ''abc'')))) ''Set-Cookie'') = 2"
proof -
  have x: "Exchange lib0 (Config auth0)
       (FormValue (reqCallback stateDashboard stateDashboard ''zzz'') ''code'')
     = Inl (LibError ''oauth2: cannot fetch token'')"
    by code_simp
  have bad: "status (fst (Callback lib0 auth0 NewResponseWriter []
        (reqCallback stateDashboard stateDashboard ''zzz''))) = Some StatusBadRequest
     \<and> w_header (fst (Callback lib0 auth0 NewResponseWriter []
        (reqCallback stateDashboard stateDashboard ''zzz''))) = w_header NewResponseWriter"
    using C3_callback_failure_sets_no_cookie
      [where lib = lib0 and self = auth0
         and r = "reqCallback stateDashboard stateDashboard ''zzz''"
         and w = NewResponseWriter and lg = "[]"]
      x wrote_NewResponseWriter
    by simp
  have k: "checkError (reqCallback stateDashboard stateDashboard ''abc'') = None"
    by code_simp
  have h: "Host (pathURL ''/dashboard'') = []"
    by (simp add: pathURL_def)
  have u: "url_Parse lib0
      (RedirectUri \<lparr>RedirectUri = ''/dashboard'', Timestamp = 1700000000\<rparr>)
      = Inr (pathURL ''/dashboard'')"
    using url_Parse0_dashboard by simp
  have good: "Callback lib0 auth0 NewResponseWriter []
        (reqCallback stateDashboard stateDashboard ''abc'') =
      (http_Redirect lib0
         (http_SetCookie lib0
            (http_SetCookie lib0 NewResponseWriter
               \<lparr>Name = authCookieName auth0,
                Value = TokenType token0 @ '' '' @ AccessToken token0,
                CookiePath = ''/'', Expires = Expiry token0, MaxAge = 0, HttpOnly = True\<rparr>)
            \<lparr>Name = stateCookieName auth0, Value = [], CookiePath = ''/'', Expires = 0,
             MaxAge = - 1, HttpOnly = False\<rparr>)
         (reqCallback stateDashboard stateDashboard ''abc'')
         (URL_String lib0 (pathURL ''/dashboard'')) StatusTemporaryRedirect, [])"
    using C3_callback_failure_sets_no_cookie
      [where lib = lib0 and self = auth0
         and r = "reqCallback stateDashboard stateDashboard ''abc''"
         and w = NewResponseWriter and lg = "[]"]
      k decodeState_dashboard [of "''abc''"] u h Exchange0_abc
    by blast
  have sent: "status (fst (http_Redirect lib0
         (http_SetCookie lib0
            (http_SetCookie lib0 NewResponseWriter
               \<lparr>Name = authCookieName auth0,
                Value = TokenType token0 @ '' '' @ AccessToken token0,
                CookiePath = ''/'', Expires = Expiry token0, MaxAge = 0, HttpOnly = True\<rparr>)
            \<lparr>Name = stateCookieName auth0, Value = [], CookiePath = ''/'', Expires = 0,
             MaxAge = - 1, HttpOnly = False\<rparr>)
         (reqCallback stateDashboard stateDashboard ''abc'')
         (URL_String lib0 (pathURL ''/dashboard'')) StatusTemporaryRedirect, [] :: Logger)) = Some 307
     \<and> length (header_values (w_header (fst (http_Redirect lib0
         (http_SetCookie lib0
            (http_SetCookie lib0 NewResponseWriter
               \<lparr>Name = authCookieName auth0,
                Value = TokenType token0 @ '' '' @ AccessToken token0,
                CookiePath = ''/'', Expires = Expiry token0, MaxAge = 0, HttpOnly = True\<rparr>)
            \<lparr>Name = stateCookieName auth0, Value = [], CookiePath = ''/'', Expires = 0,
             MaxAge = - 1, HttpOnly = False\<rparr>)
         (reqCallback stateDashboard stateDashboard ''abc'')
         (URL_String lib0 (pathURL ''/dashboard'')) StatusTemporaryRedirect, [] :: Logger)))
         ''Set-Cookie'') = 2"
    by code_simp
  show ?thesis
    using x bad k url_Parse0_dashboard h Exchange0_abc sent
    unfolding good
    by (simp add: StatusBadRequest_def w_header_NewResponseWriter)
qed

section \<open>Properties of the cache key\<close>
















section \<open>Properties of the proxy\<close>





lemma Serve_panics:
  assumes "NewRequest lib self r lg = (Inr req, lg1)" and "Client self req = Inr resp"
    and "panicked (WriteHeader (w\<lparr>w_header := copyHeader (w_header w) (RespHeader resp)\<rparr>)
                      (StatusCode resp))"
  shows "Serve lib relay self w lg r =
     (WriteHeader (w\<lparr>w_header := copyHeader (w_header w) (RespHeader resp)\<rparr>)
        (StatusCode resp), lg1)"
  using assms by (simp add: Serve_def Let_def)







lemma status_http_Error:
  "wrote w = None \<Longrightarrow> finalStatus code \<Longrightarrow> status (http_Error w msg code) = Some code"
  by (simp add: http_Error_def Let_def WriteHeader_final finalStatus_def Write_def status_def)

lemma Serve_transport_status_error:
  assumes "NewRequest lib self r lg = (Inr req, lg1)"
    and "Client self req = Inl (StatusError c e)" and "wrote w = None" and "finalStatus c"
  shows "status (fst (Serve lib relay self w lg r)) = Some c"
  using assms by (simp add: Serve_def Let_def status_http_Error)

lemma Serve_transport_other_error:
  assumes "NewRequest lib self r lg = (Inr req, lg1)"
    and "Client self req = Inl (LibError m)" and "wrote w = None"
  shows "status (fst (Serve lib relay self w lg r)) = Some 500"
  using assms
  by (simp add: Serve_def Let_def status_http_Error finalStatus_def
      StatusInternalServerError_def)

text \<open>
  Claim C5, where \<open>Serve\<close> departs from it. A \<open>*statusError\<close> from \<open>Client.Do\<close>
  is answered with its status code (one that \<open>WriteHeader\<close> sends as the status of
  the response) and every other error of \<open>Client.Do\<close> with 500
  (the two lemmas above); but an error of \<open>NewRequest\<close> is always answered with 500,
  also when a modifier returned a \<open>*statusError\<close>: with a modifier that fails with
  \<open>NewStatusError(401, cause)\<close> the reply is 500, for every library, client,
  target and request.
\<close>

theorem C5_modifier_status_error_replies_500:
  "status (fst (Serve lib relay
      \<lparr>Client = client, Target = target,
       Modifiers = [\<lambda>req lg. (Some (NewStatusError 401 cause), req, lg)]\<rparr>
      NewResponseWriter lg r)) = Some 500"
  by (simp add: Serve_def NewRequest_def Let_def http_Error_def WriteHeader_def Write_def
      checkWriteHeaderCode_def status_def NewResponseWriter_def StatusInternalServerError_def
      split: sum.splits prod.splits)

text \<open>The example proxy with the refusing modifier: the reply and the log.\<close>

theorem C5_witness:
  "status (fst (Serve lib0 relay0 proxyDeny NewResponseWriter [] reqAuthCookie)) = Some 500
   \<and> snd (Serve lib0 relay0 proxyDeny NewResponseWriter [] reqAuthCookie) =
       [LogInfo ''<<< /api/items'',
        LogError ''new request : modifier: status 401: err login required'']"
proof -
  have l: "snd (Serve lib0 relay0 proxyDeny NewResponseWriter [] reqAuthCookie) =
       [LogInfo ''<<< /api/items'',
        LogError ''new request : modifier: status 401: err login required'']"
    by code_simp
  show ?thesis
    using C5_modifier_status_error_replies_500
      [of lib0 relay0 upstream0 targetURL "Some (ErrorString ''login required'')" "[]"
         reqAuthCookie] l
    by (simp add: proxyDeny_def denyModifier_def)
qed

end
